theory Spec2Isabelle
  imports Main "HOL-Library.Sublist"
begin

section \<open>Python values\<close>

text \<open>
  A Python \<open>str\<close> is a sequence of Unicode code points. \<open>ascii\<close> embeds an ASCII
  literal. A dictionary with string keys keeps its items as an association list; the keys
  used by the program are ASCII.
\<close>

type_synonym pystr = "int list"

definition ascii :: "string \<Rightarrow> pystr" where
  "ascii s = map of_char s"

datatype pyval = PyNone | PyBool bool | PyStr pystr

type_synonym pydict = "(string \<times> pyval) list"

text \<open>Truth value of an object in a condition (\<open>if v:\<close>).\<close>

fun truthy :: "pyval \<Rightarrow> bool" where
  "truthy PyNone = False"
| "truthy (PyBool b) = b"
| "truthy (PyStr s) = (s \<noteq> [])"

text \<open>\<open>d.get(k, default)\<close>; \<open>d.get(k)\<close> is \<open>dict_get d k PyNone\<close>.\<close>

definition dict_get :: "pydict \<Rightarrow> string \<Rightarrow> pyval \<Rightarrow> pyval" where
  "dict_get d k dflt = (case map_of d k of None \<Rightarrow> dflt | Some v \<Rightarrow> v)"

text \<open>\<open>str(v)\<close>, which is also how an f-string renders \<open>{v}\<close>.\<close>

fun py_str :: "pyval \<Rightarrow> pystr" where
  "py_str PyNone = ascii ''None''"
| "py_str (PyBool b) = (if b then ascii ''True'' else ascii ''False'')"
| "py_str (PyStr s) = s"

text \<open>
  Exceptions that reach a handler of the program. Every handler of the modelled code is
  \<open>except Exception\<close>, so the class of the exception decides nothing; the payload is the
  text of \<open>str(e)\<close>.
\<close>

datatype exn = ValueError pystr | TelegramError pystr | Exception pystr

fun exn_str :: "exn \<Rightarrow> pystr" where
  "exn_str (ValueError m) = m"
| "exn_str (TelegramError m) = m"
| "exn_str (Exception m) = m"

section \<open>The store (database.py)\<close>

text \<open>
  The four tables of \<open>Database.initialize\<close>. A table is the list of its rows in rowid
  order. Columns are prefixed by the table, since record fields share one name space:
  \<open>s_id\<close> is \<open>subscriptions.id\<close>. \<open>CURRENT_TIMESTAMP\<close> is read from a clock that
  the caller passes in (seconds). The three \<open>seq_\<close> fields are the rows of
  \<open>sqlite_sequence\<close> that \<open>AUTOINCREMENT\<close> maintains.

  Every method of \<open>Database\<close> runs its SQL in a \<open>try\<close> block. For each method
  the function with the suffix \<open>_sql\<close> is the meaning of that SQL on the tables, and
  the function with the method's name adds the handler: its first argument is the exception
  that the storage engine raises during the call, if it raises one. A call that raises has
  committed nothing, so it leaves the tables as they were.
\<close>

type_synonym timestamp = int

record user_row =
  u_id :: int
  u_telegram_id :: int
  u_username :: "pystr option"
  u_first_name :: "pystr option"
  u_last_name :: "pystr option"
  u_created_at :: timestamp

record subscription_row =
  s_id :: int
  s_user_id :: int
  s_departure_station :: pystr
  s_arrival_station :: pystr
  s_departure_date :: pystr
  s_train_number :: pystr
  s_seat_type :: pystr
  s_berth_position :: pystr
  s_is_active :: bool
  s_created_at :: timestamp
  s_last_checked :: "timestamp option"

record notification_row =
  n_id :: int
  n_subscription_id :: int
  n_message :: pystr
  n_sent_at :: timestamp

record check_history_row =
  h_id :: int
  h_subscription_id :: int
  h_checked_at :: timestamp
  h_seats_available :: pyval
  h_seats_info :: "pydict option"

record database =
  users :: "user_row list"
  subscriptions :: "subscription_row list"
  notifications :: "notification_row list"
  check_history :: "check_history_row list"
  seq_subscriptions :: int
  seq_notifications :: int
  seq_check_history :: int

definition empty_db :: database where
  "empty_db = \<lparr>users = [], subscriptions = [], notifications = [], check_history = [],
     seq_subscriptions = 0, seq_notifications = 0, seq_check_history = 0\<rparr>"

text \<open>
  The rowid of an inserted row: one more than the largest rowid that the table holds or,
  with \<open>AUTOINCREMENT\<close>, has ever held (\<open>seq\<close>; 0 for a plain
  \<open>INTEGER PRIMARY KEY\<close>).
\<close>

definition next_rowid :: "int \<Rightarrow> int list \<Rightarrow> int" where
  "next_rowid seq ids = foldr max ids seq + 1"

text \<open>
  \<open>add_user\<close>: False when the Telegram id is already registered, and when the engine
  raises.
\<close>

definition add_user_sql ::
  "timestamp \<Rightarrow> int \<Rightarrow> pystr option \<Rightarrow> pystr option \<Rightarrow> pystr option \<Rightarrow> database \<Rightarrow> bool \<times> database" where
  "add_user_sql now telegram_id username first_name last_name db =
     (case find (\<lambda>u. u_telegram_id u = telegram_id) (users db) of
        Some existing_user \<Rightarrow> (False, db)
      | None \<Rightarrow>
          (True, db\<lparr>users := users db @
             [\<lparr>u_id = next_rowid 0 (map u_id (users db)), u_telegram_id = telegram_id,
               u_username = username, u_first_name = first_name, u_last_name = last_name,
               u_created_at = now\<rparr>]\<rparr>))"

definition add_user ::
  "exn option \<Rightarrow> timestamp \<Rightarrow> int \<Rightarrow> pystr option \<Rightarrow> pystr option \<Rightarrow> pystr option \<Rightarrow> database
     \<Rightarrow> bool \<times> database" where
  "add_user fault now telegram_id username first_name last_name db =
     (case fault of
        Some e \<Rightarrow> (False, db)
      | None \<Rightarrow> add_user_sql now telegram_id username first_name last_name db)"

text \<open>
  \<open>create_subscription\<close>. The \<open>SELECT\<close> looks for a row with the same seven
  values and \<open>is_active = 1\<close>; \<open>fetchone\<close> takes the first one in table order. Only
  when there is none a row is inserted, with the column defaults \<open>is_active = 1\<close>,
  \<open>created_at = CURRENT_TIMESTAMP\<close> and \<open>last_checked\<close> null, and
  \<open>cursor.lastrowid\<close> is returned. The handler logs an exception and raises it again.
\<close>

definition existing_sub_match ::
  "int \<Rightarrow> pystr \<Rightarrow> pystr \<Rightarrow> pystr \<Rightarrow> pystr \<Rightarrow> pystr \<Rightarrow> pystr \<Rightarrow> subscription_row \<Rightarrow> bool" where
  "existing_sub_match user_id departure_station arrival_station departure_date train_number
       seat_type berth_position r =
     (s_user_id r = user_id \<and> s_departure_station r = departure_station \<and>
      s_arrival_station r = arrival_station \<and> s_departure_date r = departure_date \<and>
      s_train_number r = train_number \<and> s_seat_type r = seat_type \<and>
      s_berth_position r = berth_position \<and> s_is_active r)"

definition create_subscription_sql ::
  "timestamp \<Rightarrow> int \<Rightarrow> pystr \<Rightarrow> pystr \<Rightarrow> pystr \<Rightarrow> pystr \<Rightarrow> pystr \<Rightarrow> pystr \<Rightarrow> database
     \<Rightarrow> int \<times> database" where
  "create_subscription_sql now user_id departure_station arrival_station departure_date
       train_number seat_type berth_position db =
     (case find (existing_sub_match user_id departure_station arrival_station departure_date
                   train_number seat_type berth_position) (subscriptions db) of
        Some existing_sub \<Rightarrow> (s_id existing_sub, db)
      | None \<Rightarrow>
          (let subscription_id = next_rowid (seq_subscriptions db) (map s_id (subscriptions db))
           in (subscription_id,
               db\<lparr>subscriptions := subscriptions db @
                    [\<lparr>s_id = subscription_id, s_user_id = user_id,
                      s_departure_station = departure_station,
                      s_arrival_station = arrival_station,
                      s_departure_date = departure_date, s_train_number = train_number,
                      s_seat_type = seat_type, s_berth_position = berth_position,
                      s_is_active = True, s_created_at = now, s_last_checked = None\<rparr>],
                  seq_subscriptions := subscription_id\<rparr>)))"

definition create_subscription ::
  "exn option \<Rightarrow> timestamp \<Rightarrow> int \<Rightarrow> pystr \<Rightarrow> pystr \<Rightarrow> pystr \<Rightarrow> pystr \<Rightarrow> pystr \<Rightarrow> pystr
     \<Rightarrow> database \<Rightarrow> exn + int \<times> database" where
  "create_subscription fault now user_id departure_station arrival_station departure_date
       train_number seat_type berth_position db =
     (case fault of
        Some e \<Rightarrow> Inl e
      | None \<Rightarrow>
          Inr (create_subscription_sql now user_id departure_station arrival_station
                 departure_date train_number seat_type berth_position db))"

text \<open>
  \<open>get_active_subscriptions\<close>: the join of the active subscriptions with the users on
  \<open>s.user_id = u.telegram_id\<close>, newest first, each row as the dictionary the method
  builds. Rows with equal \<open>created_at\<close> keep their table order. When the engine raises,
  the method returns the empty list.
\<close>

record subscription =
  a_id :: int
  a_user_id :: int
  a_telegram_id :: int
  a_first_name :: "pystr option"
  a_departure_station :: pystr
  a_arrival_station :: pystr
  a_departure_date :: pystr
  a_train_number :: pystr
  a_seat_type :: pystr
  a_berth_position :: pystr
  a_created_at :: timestamp
  a_last_checked :: "timestamp option"

definition row_dict :: "subscription_row \<times> user_row \<Rightarrow> subscription" where
  "row_dict row =
     (case row of (s, u) \<Rightarrow>
        \<lparr>a_id = s_id s, a_user_id = s_user_id s, a_telegram_id = u_telegram_id u,
         a_first_name = u_first_name u, a_departure_station = s_departure_station s,
         a_arrival_station = s_arrival_station s, a_departure_date = s_departure_date s,
         a_train_number = s_train_number s, a_seat_type = s_seat_type s,
         a_berth_position = s_berth_position s, a_created_at = s_created_at s,
         a_last_checked = s_last_checked s\<rparr>)"

definition active_join :: "database \<Rightarrow> (subscription_row \<times> user_row) list" where
  "active_join db =
     concat (map (\<lambda>s. map (\<lambda>u. (s, u)) (filter (\<lambda>u. s_user_id s = u_telegram_id u) (users db)))
                 (filter s_is_active (subscriptions db)))"

definition get_active_subscriptions_sql :: "database \<Rightarrow> subscription list" where
  "get_active_subscriptions_sql db =
     map row_dict (sort_key (\<lambda>row. - s_created_at (fst row)) (active_join db))"

definition get_active_subscriptions :: "exn option \<Rightarrow> database \<Rightarrow> subscription list" where
  "get_active_subscriptions fault db =
     (case fault of Some e \<Rightarrow> [] | None \<Rightarrow> get_active_subscriptions_sql db)"

text \<open>
  \<open>update_last_checked\<close>:
  \<open>UPDATE subscriptions SET last_checked = CURRENT_TIMESTAMP WHERE id = ?\<close>. This
  method and the three after it return True, or False when the engine raises.
\<close>

definition update_last_checked_sql :: "timestamp \<Rightarrow> int \<Rightarrow> database \<Rightarrow> database" where
  "update_last_checked_sql now subscription_id db =
     db\<lparr>subscriptions :=
          map (\<lambda>r. if s_id r = subscription_id then r\<lparr>s_last_checked := Some now\<rparr> else r)
              (subscriptions db)\<rparr>"

definition update_last_checked :: "exn option \<Rightarrow> timestamp \<Rightarrow> int \<Rightarrow> database \<Rightarrow> bool \<times> database" where
  "update_last_checked fault now subscription_id db =
     (case fault of
        Some e \<Rightarrow> (False, db)
      | None \<Rightarrow> (True, update_last_checked_sql now subscription_id db))"

text \<open>\<open>add_check_history\<close> and \<open>add_notification\<close>: one \<open>INSERT\<close> each.\<close>

definition add_check_history_sql ::
  "timestamp \<Rightarrow> int \<Rightarrow> pyval \<Rightarrow> pydict option \<Rightarrow> database \<Rightarrow> database" where
  "add_check_history_sql now subscription_id seats_available seats_info db =
     (let rowid = next_rowid (seq_check_history db) (map h_id (check_history db))
      in db\<lparr>check_history := check_history db @
               [\<lparr>h_id = rowid, h_subscription_id = subscription_id, h_checked_at = now,
                 h_seats_available = seats_available, h_seats_info = seats_info\<rparr>],
             seq_check_history := rowid\<rparr>)"

definition add_check_history ::
  "exn option \<Rightarrow> timestamp \<Rightarrow> int \<Rightarrow> pyval \<Rightarrow> pydict option \<Rightarrow> database \<Rightarrow> bool \<times> database" where
  "add_check_history fault now subscription_id seats_available seats_info db =
     (case fault of
        Some e \<Rightarrow> (False, db)
      | None \<Rightarrow> (True, add_check_history_sql now subscription_id seats_available seats_info db))"

definition add_notification_sql :: "timestamp \<Rightarrow> int \<Rightarrow> pystr \<Rightarrow> database \<Rightarrow> database" where
  "add_notification_sql now subscription_id message db =
     (let rowid = next_rowid (seq_notifications db) (map n_id (notifications db))
      in db\<lparr>notifications := notifications db @
               [\<lparr>n_id = rowid, n_subscription_id = subscription_id, n_message = message,
                 n_sent_at = now\<rparr>],
             seq_notifications := rowid\<rparr>)"

definition add_notification ::
  "exn option \<Rightarrow> timestamp \<Rightarrow> int \<Rightarrow> pystr \<Rightarrow> database \<Rightarrow> bool \<times> database" where
  "add_notification fault now subscription_id message db =
     (case fault of
        Some e \<Rightarrow> (False, db)
      | None \<Rightarrow> (True, add_notification_sql now subscription_id message db))"

text \<open>\<open>deactivate_subscription\<close>: \<open>UPDATE subscriptions SET is_active = 0 WHERE id = ?\<close>.\<close>

definition deactivate_subscription_sql :: "int \<Rightarrow> database \<Rightarrow> database" where
  "deactivate_subscription_sql subscription_id db =
     db\<lparr>subscriptions :=
          map (\<lambda>r. if s_id r = subscription_id then r\<lparr>s_is_active := False\<rparr> else r)
              (subscriptions db)\<rparr>"

definition deactivate_subscription :: "exn option \<Rightarrow> int \<Rightarrow> database \<Rightarrow> bool \<times> database" where
  "deactivate_subscription fault subscription_id db =
     (case fault of
        Some e \<Rightarrow> (False, db)
      | None \<Rightarrow> (True, deactivate_subscription_sql subscription_id db))"

section \<open>Notification text (monitoring.py)\<close>

text \<open>
  The literal pieces of the f-strings of \<open>_format_notification_message\<close>, as code
  points: the title line, then the labels for train, route (with the arrow between the
  stations), date, seat class, berth, price, car, seat and notification time, and the
  closing booking link. \<open>any_berth\<close> is the berth value that means "any".
\<close>

definition nl :: pystr where
  "nl = [0xA]"

definition msg_title :: pystr where
  "msg_title = [0x1F389] @ ascii '' <b>'' @ [0x41D, 0x430, 0x439, 0x434, 0x435, 0x43D, 0x44B] @
     ascii '' '' @ [0x441, 0x432, 0x43E, 0x431, 0x43E, 0x434, 0x43D, 0x44B, 0x435] @ ascii '' '' @
     [0x43C, 0x435, 0x441, 0x442, 0x430] @ ascii ''!</b>'' @ [0xA, 0xA]"

definition msg_train :: pystr where
  "msg_train = [0x1F682] @ ascii '' <b>'' @ [0x41F, 0x43E, 0x435, 0x437, 0x434] @ ascii '':</b> ''"

definition msg_route :: pystr where
  "msg_route = [0x1F4CD] @ ascii '' <b>'' @ [0x41C, 0x430, 0x440, 0x448, 0x440, 0x443, 0x442] @
     ascii '':</b> ''"

definition msg_arrow :: pystr where
  "msg_arrow = ascii '' '' @ [0x2192] @ ascii '' ''"

definition msg_date :: pystr where
  "msg_date = [0x1F4C5] @ ascii '' <b>'' @ [0x414, 0x430, 0x442, 0x430] @ ascii '':</b> ''"

definition msg_seat_type :: pystr where
  "msg_seat_type = [0x1F6CF, 0xFE0F] @ ascii '' <b>'' @ [0x422, 0x438, 0x43F] @ ascii '' '' @
     [0x43C, 0x435, 0x441, 0x442, 0x430] @ ascii '':</b> ''"

definition msg_berth :: pystr where
  "msg_berth = [0x1F6CF, 0xFE0F] @ ascii '' <b>'' @ [0x41F, 0x43E, 0x43B, 0x43A, 0x430] @
     ascii '':</b> ''"

definition msg_price :: pystr where
  "msg_price = [0x1F4B0] @ ascii '' <b>'' @ [0x426, 0x435, 0x43D, 0x430] @ ascii '':</b> ''"

definition msg_car :: pystr where
  "msg_car = [0x1F683] @ ascii '' <b>'' @ [0x412, 0x430, 0x433, 0x43E, 0x43D] @ ascii '':</b> ''"

definition msg_seat :: pystr where
  "msg_seat = [0x1FA91] @ ascii '' <b>'' @ [0x41C, 0x435, 0x441, 0x442, 0x43E] @ ascii '':</b> ''"

definition msg_time :: pystr where
  "msg_time = [0xA, 0x23F0] @ ascii '' <b>'' @ [0x412, 0x440, 0x435, 0x43C, 0x44F] @ ascii '' '' @
     [0x443, 0x432, 0x435, 0x434, 0x43E, 0x43C, 0x43B, 0x435, 0x43D, 0x438, 0x44F] @ ascii '':</b> ''"

definition msg_link :: pystr where
  "msg_link = [0xA, 0xA, 0x1F517] @ ascii '' <b>'' @ [0x421, 0x441, 0x44B, 0x43B, 0x43A, 0x430] @
     ascii '' '' @ [0x434, 0x43B, 0x44F] @ ascii '' '' @
     [0x431, 0x440, 0x43E, 0x43D, 0x438, 0x440, 0x43E, 0x432, 0x430, 0x43D, 0x438, 0x44F] @
     ascii '':</b>'' @ [0xA] @ ascii ''https://pass.rzd.ru/tickets/public/ru''"

definition any_berth :: pystr where
  "any_berth = [0x43B, 0x44E, 0x431, 0x430, 0x44F]"

text \<open>
  \<open>_format_notification_message\<close>. The first argument is the text of
  \<open>datetime.now().strftime('%d.%m.%Y %H:%M')\<close>, the only thing the method reads besides
  its two arguments. The message grows by \<open>message += ...\<close> as in the source.
\<close>

definition format_notification_message :: "pystr \<Rightarrow> subscription \<Rightarrow> pydict \<Rightarrow> pystr" where
  "format_notification_message now_text subscription availability_info =
     (let message =
            msg_title @
            msg_train @ a_train_number subscription @ nl @
            msg_route @ a_departure_station subscription @ msg_arrow @
              a_arrival_station subscription @ nl @
            msg_date @ a_departure_date subscription @ nl @
            msg_seat_type @ a_seat_type subscription @ nl;
          message =
            (if a_berth_position subscription \<noteq> any_berth
             then message @ msg_berth @ a_berth_position subscription @ nl else message);
          message =
            (if truthy (dict_get availability_info ''price'' PyNone)
             then message @ msg_price @ py_str (dict_get availability_info ''price'' PyNone) @ nl
             else message);
          message =
            (if truthy (dict_get availability_info ''car_number'' PyNone)
             then message @ msg_car @ py_str (dict_get availability_info ''car_number'' PyNone) @ nl
             else message);
          message =
            (if truthy (dict_get availability_info ''seat_number'' PyNone)
             then message @ msg_seat @ py_str (dict_get availability_info ''seat_number'' PyNone) @ nl
             else message)
      in message @ msg_time @ now_text @ msg_link)"

section \<open>Checks and notifications (monitoring.py)\<close>

text \<open>
  The calls that the service makes to the store, the parser and the bot; a call to the
  parser is named by the subscription it is made for.
\<close>

datatype call =
    Call_get_active_subscriptions
  | Call_check_seat_availability int
  | Call_update_last_checked int
  | Call_add_check_history int pyval
  | Call_send_message int
  | Call_add_notification int
  | Call_deactivate_subscription int

text \<open>
  What the service works with besides the store: the parser's
  \<open>check_seat_availability\<close> (called with train number, departure station, arrival
  station, departure date, seat type and berth position; it returns a dictionary or
  raises), the bot (absent without a token; \<open>send_message\<close> delivers, or raises the
  given exception), the exception that the storage engine raises during a call to the
  store, if any, the store's clock and the formatted wall-clock time.
\<close>

record collaborators =
  parser :: "pystr \<Rightarrow> pystr \<Rightarrow> pystr \<Rightarrow> pystr \<Rightarrow> pystr \<Rightarrow> pystr \<Rightarrow> exn + pydict"
  bot :: "(int \<Rightarrow> pystr \<Rightarrow> exn option) option"
  store_fault :: "call \<Rightarrow> exn option"
  current_timestamp :: timestamp
  now_strftime :: pystr

text \<open>
  The world a check acts on: the store, the messages Telegram has delivered (chat id and
  text), and the log of the calls, in the order they are made.
\<close>

record world =
  store :: database
  telegram :: "(int \<times> pystr) list"
  calls :: "call list"

definition logged :: "call \<Rightarrow> world \<Rightarrow> world" where
  "logged c w = w\<lparr>calls := calls w @ [c]\<rparr>"

text \<open>
  \<open>_send_notification\<close>: nothing without a bot; otherwise the message is formatted and
  sent, and only after a delivery it is saved. An exception of \<open>send_message\<close> is caught
  and logged.
\<close>

definition send_notification :: "collaborators \<Rightarrow> subscription \<Rightarrow> pydict \<Rightarrow> world \<Rightarrow> world" where
  "send_notification env subscription availability_info w =
     (case bot env of
        None \<Rightarrow> w
      | Some send_message \<Rightarrow>
          (let message = format_notification_message (now_strftime env) subscription availability_info;
               w = logged (Call_send_message (a_telegram_id subscription)) w
           in case send_message (a_telegram_id subscription) message of
                Some e \<Rightarrow> w
              | None \<Rightarrow>
                  (let w = w\<lparr>telegram := telegram w @ [(a_telegram_id subscription, message)]\<rparr>;
                       w = logged (Call_add_notification (a_id subscription)) w
                   in w\<lparr>store := snd (add_notification
                                         (store_fault env (Call_add_notification (a_id subscription)))
                                         (current_timestamp env) (a_id subscription) message
                                         (store w))\<rparr>)))"

text \<open>
  The \<open>try\<close> block of \<open>_check_subscription\<close>: the world it leaves behind and the
  exception it raised, if any. \<open>seats_info\<close> is the dictionary itself, which the source
  serialises with \<open>str\<close>, and null for an empty dictionary.
\<close>

definition check_subscription_try :: "collaborators \<Rightarrow> int \<Rightarrow> world \<Rightarrow> exn option \<times> world" where
  "check_subscription_try env subscription_id w =
     (let subscriptions = get_active_subscriptions
                            (store_fault env Call_get_active_subscriptions) (store w);
          w = logged Call_get_active_subscriptions w
      in case find (\<lambda>s. a_id s = subscription_id) subscriptions of
           None \<Rightarrow> (None, w)
         | Some subscription \<Rightarrow>
             (let w = logged (Call_check_seat_availability subscription_id) w
              in case parser env (a_train_number subscription) (a_departure_station subscription)
                        (a_arrival_station subscription) (a_departure_date subscription)
                        (a_seat_type subscription) (a_berth_position subscription) of
                   Inl e \<Rightarrow> (Some e, w)
                 | Inr availability_info \<Rightarrow>
                     (let w = logged (Call_update_last_checked subscription_id) w;
                          w = w\<lparr>store := snd (update_last_checked
                                                (store_fault env (Call_update_last_checked subscription_id))
                                                (current_timestamp env) subscription_id (store w))\<rparr>;
                          seats_info = (if availability_info \<noteq> [] then Some availability_info
                                        else None);
                          seats_available = dict_get availability_info ''available'' (PyBool False);
                          w = logged (Call_add_check_history subscription_id seats_available) w;
                          w = w\<lparr>store := snd (add_check_history
                                                (store_fault env
                                                   (Call_add_check_history subscription_id seats_available))
                                                (current_timestamp env) subscription_id
                                                seats_available seats_info (store w))\<rparr>;
                          w = (if truthy (dict_get availability_info ''available'' (PyBool False))
                               then send_notification env subscription availability_info w
                               else w)
                      in (None, w))))"

text \<open>\<open>_check_subscription\<close>: the handler logs the exception and the method returns.\<close>

definition check_subscription :: "collaborators \<Rightarrow> int \<Rightarrow> world \<Rightarrow> world" where
  "check_subscription env subscription_id w = snd (check_subscription_try env subscription_id w)"

text \<open>
  \<open>_check_all_subscriptions\<close>: one task per active subscription, gathered. A task
  touches the store only through the store's methods, each of which is one transaction;
  the tasks are run here one after the other in the order they were created. No task
  raises, since \<open>_check_subscription\<close> catches every exception, and the method's own
  handler has nothing left to catch.
\<close>

definition check_all_subscriptions :: "collaborators \<Rightarrow> world \<Rightarrow> world" where
  "check_all_subscriptions env w =
     (let subscriptions = get_active_subscriptions
                            (store_fault env Call_get_active_subscriptions) (store w);
          w = logged Call_get_active_subscriptions w
      in fold (\<lambda>subscription. check_subscription env (a_id subscription)) subscriptions w)"

text \<open>
  The loop of \<open>run\<close>, for as many cycles as there are entries in the list: each cycle
  checks all subscriptions against what the collaborators answer in that cycle.
\<close>

definition run_cycles :: "collaborators list \<Rightarrow> world \<Rightarrow> world" where
  "run_cycles envs w = fold check_all_subscriptions envs w"

section \<open>Housekeeping (monitoring.py)\<close>

text \<open>
  \<open>datetime.strptime(s, '%Y-%m-%d').date()\<close>: a year \<open>\d\d\d\d\<close>, a month
  \<open>1[0-2]|0[1-9]|[1-9]\<close>, a day \<open>3[0-1]|[1-2]\d|0[1-9]|[1-9]| [1-9]\<close>, nothing left
  over, and a date that exists. Anything else raises \<open>ValueError\<close>. The class \<open>\d\<close>
  and \<open>int\<close> read the decimal digits of every script from the Unicode database of the
  interpreter: \<open>unicode_decimal c\<close> is the decimal value that it gives a code point
  beyond ASCII, \<open>None\<close> for a code point that is no decimal digit. The digits written
  out in the month and day patterns are ASCII.
\<close>

type_synonym date = "nat \<times> nat \<times> nat"

fun split_on :: "int \<Rightarrow> pystr \<Rightarrow> pystr list" where
  "split_on sep [] = [[]]"
| "split_on sep (c # cs) =
     (if c = sep then [] # split_on sep cs
      else (case split_on sep cs of [] \<Rightarrow> [[c]] | p # ps \<Rightarrow> (c # p) # ps))"

definition decimal_value :: "(int \<Rightarrow> nat option) \<Rightarrow> int \<Rightarrow> nat option" where
  "decimal_value unicode_decimal c =
     (if 48 \<le> c \<and> c \<le> 57 then Some (nat (c - 48))
      else if c < 128 then None
      else unicode_decimal c)"

definition is_digit :: "(int \<Rightarrow> nat option) \<Rightarrow> int \<Rightarrow> bool" where
  "is_digit unicode_decimal c =
     (case decimal_value unicode_decimal c of None \<Rightarrow> False | Some v \<Rightarrow> True)"

definition int_of_digits :: "(int \<Rightarrow> nat option) \<Rightarrow> pystr \<Rightarrow> nat" where
  "int_of_digits unicode_decimal s =
     foldl (\<lambda>acc c. 10 * acc + (case decimal_value unicode_decimal c of None \<Rightarrow> 0 | Some v \<Rightarrow> v))
           0 s"

fun month_directive :: "pystr \<Rightarrow> bool" where
  "month_directive [a, b] = ((a = 49 \<and> 48 \<le> b \<and> b \<le> 50) \<or> (a = 48 \<and> 49 \<le> b \<and> b \<le> 57))"
| "month_directive [a] = (49 \<le> a \<and> a \<le> 57)"
| "month_directive s = False"

fun day_directive :: "(int \<Rightarrow> nat option) \<Rightarrow> pystr \<Rightarrow> bool" where
  "day_directive unicode_decimal [a, b] =
     ((a = 51 \<and> 48 \<le> b \<and> b \<le> 49) \<or> (49 \<le> a \<and> a \<le> 50 \<and> is_digit unicode_decimal b) \<or>
      (a = 48 \<and> 49 \<le> b \<and> b \<le> 57) \<or> (a = 32 \<and> 49 \<le> b \<and> b \<le> 57))"
| "day_directive unicode_decimal [a] = (49 \<le> a \<and> a \<le> 57)"
| "day_directive unicode_decimal s = False"

definition is_leap :: "nat \<Rightarrow> bool" where
  "is_leap y = (y mod 4 = 0 \<and> (y mod 100 \<noteq> 0 \<or> y mod 400 = 0))"

definition days_in_month :: "nat \<Rightarrow> nat \<Rightarrow> nat" where
  "days_in_month y m =
     (if m = 2 then (if is_leap y then 29 else 28)
      else if m = 4 \<or> m = 6 \<or> m = 9 \<or> m = 11 then 30 else 31)"

definition strptime_ymd :: "(int \<Rightarrow> nat option) \<Rightarrow> pystr \<Rightarrow> exn + date" where
  "strptime_ymd unicode_decimal s =
     (case split_on 45 s of
        [ys, ms, ds] \<Rightarrow>
          (if length ys = 4 \<and> list_all (is_digit unicode_decimal) ys \<and> month_directive ms \<and>
              day_directive unicode_decimal ds
           then (let y = int_of_digits unicode_decimal ys; m = int_of_digits unicode_decimal ms;
                     d = int_of_digits unicode_decimal (filter (is_digit unicode_decimal) ds)
                 in if 1 \<le> y \<and> d \<le> days_in_month y m then Inr (y, m, d)
                    else Inl (ValueError (ascii ''day is out of range for month'')))
           else Inl (ValueError (ascii ''time data does not match format'')))
      | _ \<Rightarrow> Inl (ValueError (ascii ''time data does not match format'')))"

text \<open>Dates compare by year, then month, then day.\<close>

definition date_less :: "date \<Rightarrow> date \<Rightarrow> bool" where
  "date_less a b =
     (case a of (y1, m1, d1) \<Rightarrow> case b of (y2, m2, d2) \<Rightarrow>
        y1 < y2 \<or> (y1 = y2 \<and> (m1 < m2 \<or> (m1 = m2 \<and> d1 < d2))))"

text \<open>
  The loop of \<open>cleanup_old_subscriptions\<close> over the active subscriptions; \<open>today\<close> is
  \<open>datetime.now().date()\<close>, and \<open>fault\<close> tells what the storage engine raises
  during a call. A date that does not parse raises out of the loop. The counter of
  deactivated subscriptions only feeds the log and is left out.
\<close>

fun cleanup_loop ::
  "(int \<Rightarrow> nat option) \<Rightarrow> (call \<Rightarrow> exn option) \<Rightarrow> date \<Rightarrow> subscription list \<Rightarrow> world
     \<Rightarrow> exn option \<times> world" where
  "cleanup_loop unicode_decimal fault today [] w = (None, w)"
| "cleanup_loop unicode_decimal fault today (subscription # rest) w =
     (case strptime_ymd unicode_decimal (a_departure_date subscription) of
        Inl e \<Rightarrow> (Some e, w)
      | Inr departure_date \<Rightarrow>
          (if date_less departure_date today
           then (let w = logged (Call_deactivate_subscription (a_id subscription)) w;
                     w = w\<lparr>store := snd (deactivate_subscription
                                           (fault (Call_deactivate_subscription (a_id subscription)))
                                           (a_id subscription) (store w))\<rparr>
                 in cleanup_loop unicode_decimal fault today rest w)
           else cleanup_loop unicode_decimal fault today rest w))"

text \<open>
  \<open>cleanup_old_subscriptions\<close>: the subscriptions are those that
  \<open>get_active_subscriptions\<close> lists; an exception of the loop is caught and logged.
\<close>

definition cleanup_old_subscriptions ::
  "(int \<Rightarrow> nat option) \<Rightarrow> (call \<Rightarrow> exn option) \<Rightarrow> date \<Rightarrow> world \<Rightarrow> world" where
  "cleanup_old_subscriptions unicode_decimal fault today w =
     (let subscriptions = get_active_subscriptions (fault Call_get_active_subscriptions) (store w);
          w = logged Call_get_active_subscriptions w
      in snd (cleanup_loop unicode_decimal fault today subscriptions w))"

section \<open>Monitoring service state (monitoring.py)\<close>

text \<open>
  The attributes that \<open>MonitoringService.__init__\<close> sets on the service object,
  besides the store, the parser and the bot, which the operations above take as
  arguments.
\<close>

record MonitoringService =
  is_running :: bool
  check_interval :: int
  max_retries :: int
  retry_delay :: int

definition init_service :: MonitoringService where
  "init_service = \<lparr>is_running = False, check_interval = 300, max_retries = 3, retry_delay = 60\<rparr>"

text \<open>
  \<open>update_check_interval\<close>: a requested interval below 60 is replaced by 60 before it
  is stored.
\<close>

definition update_check_interval :: "int \<Rightarrow> MonitoringService \<Rightarrow> MonitoringService" where
  "update_check_interval interval svc =
     (let interval = (if interval < 60 then 60 else interval)
      in svc\<lparr>check_interval := interval\<rparr>)"

section \<open>The parser (rzd_parser.py)\<close>

text \<open>
  What \<open>RZDParser\<close> reads from outside, as parameters: the items of the
  \<open>station_codes\<close> dictionary of \<open>_get_station_code\<close>, \<open>str.lower\<close>, the
  station suggester (status and the \<open>value\<close> entries of the JSON list, or an exception),
  the ticket page request (status and body, each of which may raise instead), and the
  parsed page.

  A parsed page answers \<open>select\<close> for a selector, gives the parents of the text nodes
  that match the seat, car or price pattern, and its whole text; each of these calls into
  the HTML library and may raise. An element answers with its text and with what
  \<open>_extract_price\<close>, \<open>_extract_car_number\<close> and \<open>_extract_seat_number\<close> find
  in it (those methods turn every exception into \<open>None\<close>).
\<close>

record page_block =
  block_text :: pystr
  block_price :: "pystr option"
  block_car :: "pystr option"
  block_seat :: "pystr option"

record soup =
  select :: "pystr \<Rightarrow> exn + page_block list"
  find_all_text :: "exn + page_block list"
  get_text :: "exn + pystr"

record http_response =
  response_status :: int
  response_text :: "exn + pystr"

record site =
  station_codes :: "(pystr \<times> pystr) list"
  lower :: "pystr \<Rightarrow> pystr"
  suggester :: "pystr \<Rightarrow> exn + int \<times> (exn + pystr option list)"
  http_get :: "pystr \<Rightarrow> (string \<times> pystr) list \<Rightarrow> exn + http_response"
  BeautifulSoup :: "pystr \<Rightarrow> exn + soup"

text \<open>\<open>str.strip()\<close> removes the white space of \<open>str.isspace\<close> at both ends.\<close>

definition is_space :: "int \<Rightarrow> bool" where
  "is_space c =
     ((9 \<le> c \<and> c \<le> 13) \<or> (28 \<le> c \<and> c \<le> 32) \<or> c = 0x85 \<or> c = 0xA0 \<or> c = 0x1680 \<or>
      (0x2000 \<le> c \<and> c \<le> 0x200A) \<or> c = 0x2028 \<or> c = 0x2029 \<or> c = 0x202F \<or>
      c = 0x205F \<or> c = 0x3000)"

definition strip :: "pystr \<Rightarrow> pystr" where
  "strip s = rev (dropWhile is_space (rev (dropWhile is_space s)))"

text \<open>The decimal text of an integer, as an f-string renders it.\<close>

function digits :: "nat \<Rightarrow> pystr" where
  "digits n = (if n < 10 then [48 + int n] else digits (n div 10) @ [48 + int (n mod 10)])"
  by pat_completeness auto
termination
  by (relation "measure (\<lambda>n. n)") auto

definition str_of_int :: "int \<Rightarrow> pystr" where
  "str_of_int i = (if i < 0 then 45 # digits (nat (- i)) else digits (nat i))"

text \<open>Truth value of an \<open>Optional[str]\<close>: neither \<open>None\<close> nor empty.\<close>

fun str_truthy :: "pystr option \<Rightarrow> bool" where
  "str_truthy None = False"
| "str_truthy (Some s) = (s \<noteq> [])"

fun opt_val :: "pystr option \<Rightarrow> pyval" where
  "opt_val None = PyNone"
| "opt_val (Some s) = PyStr s"

text \<open>
  \<open>_search_station_code_api\<close>: the first suggestion's \<open>value\<close>, and \<open>None\<close> for a
  status other than 200, an empty list or any exception.
\<close>

definition search_station_code_api :: "site \<Rightarrow> pystr \<Rightarrow> pystr option" where
  "search_station_code_api P station_name =
     (case suggester P station_name of
        Inl e \<Rightarrow> None
      | Inr response \<Rightarrow>
          (if fst response \<noteq> 200 then None
           else case snd response of
                  Inl e \<Rightarrow> None
                | Inr data \<Rightarrow> (case data of [] \<Rightarrow> None | first # others \<Rightarrow> first)))"

text \<open>
  \<open>_get_station_code\<close>: the exact name, then the first item of the dictionary whose
  name contains the normalised name or is contained in it, then the suggester.
\<close>

definition get_station_code :: "site \<Rightarrow> pystr \<Rightarrow> pystr option" where
  "get_station_code P station_name =
     (let normalized_name = strip (lower P station_name)
      in case map_of (station_codes P) normalized_name of
           Some code \<Rightarrow> Some code
         | None \<Rightarrow>
             (case find (\<lambda>item. sublist normalized_name (fst item) \<or> sublist (fst item) normalized_name)
                     (station_codes P) of
                Some item \<Rightarrow> Some (snd item)
              | None \<Rightarrow> search_station_code_api P station_name))"

text \<open>
  The words of \<open>_is_seat_available\<close> and \<open>_check_general_availability\<close>, the
  placeholder for details to be looked up on the site, and the two error texts of
  \<open>check_seat_availability\<close>.
\<close>

definition kupe_word :: pystr where
  "kupe_word = [0x43A, 0x443, 0x43F, 0x435]"

definition taken_words :: "pystr list" where
  "taken_words =
     [[0x437, 0x430, 0x431, 0x440, 0x43E, 0x43D, 0x438, 0x440, 0x43E, 0x432, 0x430, 0x43D, 0x43E],
      [0x437, 0x430, 0x43D, 0x44F, 0x442, 0x43E],
      [0x43D, 0x435, 0x434, 0x43E, 0x441, 0x442, 0x443, 0x43F, 0x43D, 0x43E]]"

definition availability_indicators :: "pystr list" where
  "availability_indicators =
     [[0x434, 0x43E, 0x441, 0x442, 0x443, 0x43F, 0x43D, 0x43E],
      [0x441, 0x432, 0x43E, 0x431, 0x43E, 0x434, 0x43D, 0x43E],
      [0x435, 0x441, 0x442, 0x44C] @ ascii '' '' @ [0x43C, 0x435, 0x441, 0x442, 0x430],
      [0x43C, 0x43E, 0x436, 0x43D, 0x43E] @ ascii '' '' @ [0x43A, 0x443, 0x43F, 0x438, 0x442, 0x44C],
      ascii ''available'', ascii ''free'', ascii ''book'',
      [0x43A, 0x443, 0x43F, 0x438, 0x442, 0x44C]]"

definition unavailable_indicators :: "pystr list" where
  "unavailable_indicators =
     [[0x43D, 0x435, 0x442] @ ascii '' '' @ [0x43C, 0x435, 0x441, 0x442],
      [0x437, 0x430, 0x431, 0x440, 0x43E, 0x43D, 0x438, 0x440, 0x43E, 0x432, 0x430, 0x43D, 0x43E],
      [0x437, 0x430, 0x43D, 0x44F, 0x442, 0x43E],
      [0x43D, 0x435, 0x434, 0x43E, 0x441, 0x442, 0x443, 0x43F, 0x43D, 0x43E],
      ascii ''sold out'', ascii ''unavailable'',
      [0x437, 0x430, 0x43A, 0x43E, 0x43D, 0x447, 0x438, 0x43B, 0x438, 0x441, 0x44C]]"

definition ask_site :: pystr where
  "ask_site = [0x423, 0x442, 0x43E, 0x447, 0x43D, 0x438, 0x442, 0x435] @ ascii '' '' @
     [0x43D, 0x430] @ ascii '' '' @ [0x441, 0x430, 0x439, 0x442, 0x435]"

definition err_station :: pystr where
  "err_station = [0x41D, 0x435] @ ascii '' '' @ [0x443, 0x434, 0x430, 0x43B, 0x43E, 0x441, 0x44C] @
     ascii '' '' @ [0x43D, 0x430, 0x439, 0x442, 0x438] @ ascii '' '' @ [0x43A, 0x43E, 0x434, 0x44B] @
     ascii '' '' @ [0x441, 0x442, 0x430, 0x43D, 0x446, 0x438, 0x439]"

definition err_http :: pystr where
  "err_http = ascii ''HTTP '' @ [0x43E, 0x448, 0x438, 0x431, 0x43A, 0x430] @ ascii '' ''"

definition seat_selectors :: "pystr list" where
  "seat_selectors =
     [ascii ''div[class*='' @ [0x22] @ ascii ''seat'' @ [0x22] @ ascii '']'',
      ascii ''div[class*='' @ [0x22] @ ascii ''place'' @ [0x22] @ ascii '']'',
      ascii ''div[class*='' @ [0x22] @ ascii ''car'' @ [0x22] @ ascii '']'',
      ascii ''span[class*='' @ [0x22] @ ascii ''seat'' @ [0x22] @ ascii '']'',
      ascii ''td[class*='' @ [0x22] @ ascii ''seat'' @ [0x22] @ ascii '']'',
      ascii ''div.ticket-seat'', ascii ''div.car-seat'']"

text \<open>
  \<open>_is_seat_available\<close>: the element names the seat type, for a compartment also the
  berth unless any berth will do, and none of the words for a taken seat.
\<close>

definition is_seat_available :: "site \<Rightarrow> page_block \<Rightarrow> pystr \<Rightarrow> pystr \<Rightarrow> bool" where
  "is_seat_available P block seat_type berth_position =
     (let block_text = lower P (block_text block)
      in if \<not> sublist (lower P seat_type) block_text then False
         else if lower P seat_type = kupe_word \<and> berth_position \<noteq> any_berth \<and>
                 \<not> sublist (lower P berth_position) block_text then False
         else if list_ex (\<lambda>word. sublist word block_text) taken_words then False
         else True)"

text \<open>
  \<open>_check_general_availability\<close>: the \<open>try\<close> block, and the method with its handler,
  which answers unavailable with the exception's text.
\<close>

definition check_general_availability_try :: "site \<Rightarrow> soup \<Rightarrow> pystr \<Rightarrow> pystr \<Rightarrow> exn + pydict" where
  "check_general_availability_try P page seat_type berth_position =
     (case get_text page of
        Inl e \<Rightarrow> Inl e
      | Inr text \<Rightarrow>
          (let page_text = lower P text
           in if list_ex (\<lambda>indicator. sublist indicator page_text) availability_indicators
              then Inr [(''available'', PyBool True), (''seat_type'', PyStr seat_type),
                        (''berth_position'', PyStr berth_position), (''price'', PyStr ask_site),
                        (''car_number'', PyStr ask_site), (''seat_number'', PyStr ask_site)]
              else if list_ex (\<lambda>indicator. sublist indicator page_text) unavailable_indicators
              then Inr [(''available'', PyBool False), (''seat_type'', PyStr seat_type),
                        (''berth_position'', PyStr berth_position)]
              else Inr [(''available'', PyBool False), (''seat_type'', PyStr seat_type),
                        (''berth_position'', PyStr berth_position)]))"

definition check_general_availability :: "site \<Rightarrow> soup \<Rightarrow> pystr \<Rightarrow> pystr \<Rightarrow> pydict" where
  "check_general_availability P page seat_type berth_position =
     (case check_general_availability_try P page seat_type berth_position of
        Inr seat_info \<Rightarrow> seat_info
      | Inl e \<Rightarrow> [(''available'', PyBool False), (''seat_type'', PyStr seat_type),
                  (''berth_position'', PyStr berth_position), (''error'', PyStr (exn_str e))])"

text \<open>The loop over the selectors stops at the first one that selects anything.\<close>

fun first_selected :: "soup \<Rightarrow> pystr list \<Rightarrow> exn + page_block list" where
  "first_selected page [] = Inr []"
| "first_selected page (selector # selectors) =
     (case select page selector of
        Inl e \<Rightarrow> Inl e
      | Inr blocks \<Rightarrow> if blocks \<noteq> [] then Inr blocks else first_selected page selectors)"

text \<open>
  \<open>_parse_seat_availability\<close>: the first available element gives the answer with its
  price, car and seat; without one the page as a whole decides. Again the \<open>try\<close> block
  and the method with its handler.
\<close>

definition parse_seat_availability_try :: "site \<Rightarrow> pystr \<Rightarrow> pystr \<Rightarrow> pystr \<Rightarrow> exn + pydict" where
  "parse_seat_availability_try P html seat_type berth_position =
     (case BeautifulSoup P html of
        Inl e \<Rightarrow> Inl e
      | Inr page \<Rightarrow>
          (case first_selected page seat_selectors of
             Inl e \<Rightarrow> Inl e
           | Inr seat_blocks \<Rightarrow>
               (case (if seat_blocks = [] then find_all_text page else Inr seat_blocks) of
                  Inl e \<Rightarrow> Inl e
                | Inr seat_blocks \<Rightarrow>
                    (case find (\<lambda>block. is_seat_available P block seat_type berth_position)
                            seat_blocks of
                       Some block \<Rightarrow>
                         Inr [(''available'', PyBool True), (''seat_type'', PyStr seat_type),
                              (''berth_position'', PyStr berth_position),
                              (''price'', opt_val (block_price block)),
                              (''car_number'', opt_val (block_car block)),
                              (''seat_number'', opt_val (block_seat block))]
                     | None \<Rightarrow>
                         Inr (check_general_availability P page seat_type berth_position)))))"

definition parse_seat_availability :: "site \<Rightarrow> pystr \<Rightarrow> pystr \<Rightarrow> pystr \<Rightarrow> pydict" where
  "parse_seat_availability P html seat_type berth_position =
     (case parse_seat_availability_try P html seat_type berth_position of
        Inr seat_info \<Rightarrow> seat_info
      | Inl e \<Rightarrow> [(''available'', PyBool False), (''error'', PyStr (exn_str e))])"

text \<open>
  \<open>check_seat_availability\<close>: the \<open>try\<close> block returns a dictionary or raises; the
  method returns the dictionary, or the handler's.
\<close>

definition base_url :: pystr where
  "base_url = ascii ''https://pass.rzd.ru''"

definition check_url :: pystr where
  "check_url = base_url @ ascii ''/tickets/public/ru''"

definition check_params :: "pystr \<Rightarrow> pystr \<Rightarrow> pystr \<Rightarrow> pystr \<Rightarrow> (string \<times> pystr) list" where
  "check_params departure_code arrival_code departure_date train_number =
     [(''layer_id'', ascii ''5827''), (''dir'', ascii ''0''), (''tfl'', ascii ''3''),
      (''checkSeats'', ascii ''1''), (''code0'', departure_code), (''code1'', arrival_code),
      (''dt0'', departure_date), (''trainNumber'', train_number)]"

definition check_seat_availability_try ::
  "site \<Rightarrow> pystr \<Rightarrow> pystr \<Rightarrow> pystr \<Rightarrow> pystr \<Rightarrow> pystr \<Rightarrow> pystr \<Rightarrow> exn + pydict" where
  "check_seat_availability_try P train_number departure_station arrival_station departure_date
       seat_type berth_position =
     (let departure_code = get_station_code P departure_station;
          arrival_code = get_station_code P arrival_station
      in if \<not> str_truthy departure_code \<or> \<not> str_truthy arrival_code
         then Inr [(''available'', PyBool False), (''error'', PyStr err_station)]
         else
           (let params = check_params (the departure_code) (the arrival_code) departure_date
                           train_number
            in case http_get P check_url params of
                 Inl e \<Rightarrow> Inl e
               | Inr response \<Rightarrow>
                   (if response_status response \<noteq> 200
                    then Inr [(''available'', PyBool False),
                              (''error'', PyStr (err_http @ str_of_int (response_status response)))]
                    else case response_text response of
                           Inl e \<Rightarrow> Inl e
                         | Inr html \<Rightarrow>
                             Inr (parse_seat_availability P html seat_type berth_position))))"

definition check_seat_availability ::
  "site \<Rightarrow> pystr \<Rightarrow> pystr \<Rightarrow> pystr \<Rightarrow> pystr \<Rightarrow> pystr \<Rightarrow> pystr \<Rightarrow> pydict" where
  "check_seat_availability P train_number departure_station arrival_station departure_date
       seat_type berth_position =
     (case check_seat_availability_try P train_number departure_station arrival_station
             departure_date seat_type berth_position of
        Inr availability_info \<Rightarrow> availability_info
      | Inl e \<Rightarrow> [(''available'', PyBool False), (''error'', PyStr (exn_str e))])"

section \<open>Observations\<close>

text \<open>
  The answer of the parser for a subscription, as \<open>_check_subscription\<close> asks for it,
  and whether that answer counts as available.
\<close>

definition probe :: "collaborators \<Rightarrow> subscription \<Rightarrow> exn + pydict" where
  "probe env a = parser env (a_train_number a) (a_departure_station a) (a_arrival_station a)
                   (a_departure_date a) (a_seat_type a) (a_berth_position a)"

definition verdict :: "collaborators \<Rightarrow> subscription \<Rightarrow> bool" where
  "verdict env a =
     (case probe env a of
        Inl e \<Rightarrow> False
      | Inr info \<Rightarrow> truthy (dict_get info ''available'' (PyBool False)))"

text \<open>Whether the bot exists and delivers the message for this subscription and answer.\<close>

definition delivers :: "collaborators \<Rightarrow> subscription \<Rightarrow> pydict \<Rightarrow> bool" where
  "delivers env a info =
     (case bot env of
        None \<Rightarrow> False
      | Some send_message \<Rightarrow>
          send_message (a_telegram_id a) (format_notification_message (now_strftime env) a info) = None)"

text \<open>The calls that \<open>_send_notification\<close> makes.\<close>

definition notify_calls :: "collaborators \<Rightarrow> subscription \<Rightarrow> pydict \<Rightarrow> call list" where
  "notify_calls env a info =
     (case bot env of
        None \<Rightarrow> []
      | Some send_message \<Rightarrow>
          Call_send_message (a_telegram_id a) #
          (case send_message (a_telegram_id a)
                  (format_notification_message (now_strftime env) a info) of
             None \<Rightarrow> [Call_add_notification (a_id a)]
           | Some e \<Rightarrow> []))"

text \<open>\<open>precedes x y zs\<close>: \<open>y\<close> occurs in \<open>zs\<close> after the first \<open>x\<close>.\<close>

definition precedes :: "'a \<Rightarrow> 'a \<Rightarrow> 'a list \<Rightarrow> bool" where
  "precedes x y zs = (y \<in> set (drop 1 (dropWhile (\<lambda>z. z \<noteq> x) zs)))"

text \<open>
  What a world has recorded: the check history as pairs of subscription and availability,
  the subscriptions of the saved notifications, and the subscriptions probed, each in the
  order of recording.
\<close>

definition history_entries :: "world \<Rightarrow> (int \<times> pyval) list" where
  "history_entries w = map (\<lambda>h. (h_subscription_id h, h_seats_available h)) (check_history (store w))"

definition notified :: "world \<Rightarrow> int list" where
  "notified w = map n_subscription_id (notifications (store w))"

definition probes :: "world \<Rightarrow> int list" where
  "probes w = concat (map (\<lambda>c. case c of Call_check_seat_availability j \<Rightarrow> [j] | _ \<Rightarrow> []) (calls w))"

text \<open>What one check of a subscription adds to the history and to the notifications.\<close>

definition history_of_probe :: "collaborators \<Rightarrow> subscription \<Rightarrow> (int \<times> pyval) list" where
  "history_of_probe env a =
     (case probe env a of
        Inl e \<Rightarrow> []
      | Inr info \<Rightarrow> [(a_id a, dict_get info ''available'' (PyBool False))])"

definition notification_of_probe :: "collaborators \<Rightarrow> subscription \<Rightarrow> int list" where
  "notification_of_probe env a =
     (case probe env a of
        Inl e \<Rightarrow> []
      | Inr info \<Rightarrow>
          (if truthy (dict_get info ''available'' (PyBool False)) \<and> delivers env a info
           then [a_id a] else []))"

text \<open>
  A listed subscription with its last-checked time blanked, and with it set: a check
  changes nothing else in the listing.
\<close>

definition forget :: "subscription \<Rightarrow> subscription" where
  "forget a = a\<lparr>a_last_checked := None\<rparr>"

definition touch :: "timestamp \<Rightarrow> int \<Rightarrow> subscription \<Rightarrow> subscription" where
  "touch now j a = (if a_id a = j then a\<lparr>a_last_checked := Some now\<rparr> else a)"

text \<open>A departure date that parses and lies before the given day.\<close>

definition past_departure :: "(int \<Rightarrow> nat option) \<Rightarrow> date \<Rightarrow> pystr \<Rightarrow> bool" where
  "past_departure unicode_decimal today s =
     (case strptime_ymd unicode_decimal s of
        Inl e \<Rightarrow> False
      | Inr departure_date \<Rightarrow> date_less departure_date today)"

text \<open>
  An answer of the parser that reports a failure: not available, with an error text.
\<close>

definition failure_result :: "pydict \<Rightarrow> bool" where
  "failure_result d = (map_of d ''available'' = Some (PyBool False) \<and> map_of d ''error'' \<noteq> None)"

text \<open>The parser of a site, as the service calls it: it returns and never raises.\<close>

definition parser_of ::
  "site \<Rightarrow> pystr \<Rightarrow> pystr \<Rightarrow> pystr \<Rightarrow> pystr \<Rightarrow> pystr \<Rightarrow> pystr \<Rightarrow> exn + pydict" where
  "parser_of P train_number departure_station arrival_station departure_date seat_type
       berth_position =
     Inr (check_seat_availability P train_number departure_station arrival_station
            departure_date seat_type berth_position)"

section \<open>Sample data\<close>

text \<open>
  One registered user with a subscription for train 001M from Moscow to Kazan on
  2025-06-01, compartment class, lower berth; then the same store with two more
  subscriptions of that user.
\<close>

definition moscow :: pystr where "moscow = ascii ''Moscow''"
definition kazan :: pystr where "kazan = ascii ''Kazan''"
definition june1 :: pystr where "june1 = ascii ''2025-06-01''"
definition train1 :: pystr where "train1 = ascii ''001M''"
definition train2 :: pystr where "train2 = ascii ''002A''"
definition train3 :: pystr where "train3 = ascii ''003B''"
definition kupe :: pystr where "kupe = [0x43A, 0x443, 0x43F, 0x435]"
definition lower_berth :: pystr where "lower_berth = [0x43D, 0x438, 0x436, 0x43D, 0x44F, 0x44F]"

definition sample_db :: database where
  "sample_db =
     snd (create_subscription_sql 200 42 moscow kazan june1 train1 kupe lower_berth
            (snd (add_user_sql 100 42 None (Some (ascii ''Ann'')) None empty_db)))"

definition sample_world :: world where
  "sample_world = \<lparr>store = sample_db, telegram = [], calls = []\<rparr>"

definition sample_subscription :: subscription where
  "sample_subscription =
     \<lparr>a_id = 1, a_user_id = 42, a_telegram_id = 42, a_first_name = Some (ascii ''Ann''),
      a_departure_station = moscow, a_arrival_station = kazan, a_departure_date = june1,
      a_train_number = train1, a_seat_type = kupe, a_berth_position = lower_berth,
      a_created_at = 200, a_last_checked = None\<rparr>"

definition three_db :: database where
  "three_db =
     snd (create_subscription_sql 220 42 moscow kazan june1 train3 kupe any_berth
       (snd (create_subscription_sql 210 42 moscow kazan june1 train2 kupe any_berth sample_db)))"

definition three_world :: world where
  "three_world = \<lparr>store = three_db, telegram = [], calls = []\<rparr>"

text \<open>
  Collaborators whose parser answers every probe with the given availability and whose
  bot delivers; and collaborators whose parser raises for train 002A. The store works for
  both. \<open>no_fault\<close> is the storage engine that never raises.
\<close>

definition no_fault :: "call \<Rightarrow> exn option" where
  "no_fault c = None"

definition verdict_env :: "bool \<Rightarrow> collaborators" where
  "verdict_env v =
     \<lparr>parser = (\<lambda>train dep arr dt st bp. Inr [(''available'', PyBool v)]),
      bot = Some (\<lambda>chat text. None), store_fault = (\<lambda>c. None), current_timestamp = 300,
      now_strftime = ascii ''01.05.2025 12:00''\<rparr>"

definition raising_env :: collaborators where
  "raising_env =
     \<lparr>parser = (\<lambda>train dep arr dt st bp.
                  if train = train2 then Inl (Exception (ascii ''timeout''))
                  else Inr [(''available'', PyBool False)]),
      bot = Some (\<lambda>chat text. None), store_fault = (\<lambda>c. None), current_timestamp = 300,
      now_strftime = ascii ''01.05.2025 12:00''\<rparr>"

text \<open>
  The sample store with a second subscription, for 2025-07-01; an answer of the parser with
  price, car and seat; and a site that knows two stations, whose suggester is unreachable
  and whose ticket page answers with status 503.
\<close>

definition july1 :: pystr where "july1 = ascii ''2025-07-01''"

definition dates_db :: database where
  "dates_db = snd (create_subscription_sql 210 42 moscow kazan july1 train2 kupe any_berth sample_db)"

definition dates_world :: world where
  "dates_world = \<lparr>store = dates_db, telegram = [], calls = []\<rparr>"

definition sample_info :: pydict where
  "sample_info =
     [(''available'', PyBool True), (''price'', PyStr (ascii ''3200'')),
      (''car_number'', PyStr (ascii ''5'')), (''seat_number'', PyStr (ascii ''12''))]"

definition sample_response :: http_response where
  "sample_response = \<lparr>response_status = 503, response_text = Inr []\<rparr>"

definition sample_site :: site where
  "sample_site =
     \<lparr>station_codes = [(ascii ''moscow'', ascii ''2000000''), (ascii ''kazan'', ascii ''2060001'')],
      lower = (\<lambda>s. s),
      suggester = (\<lambda>station_name. Inl (Exception (ascii ''offline''))),
      http_get = (\<lambda>url params. Inr sample_response),
      BeautifulSoup = (\<lambda>html. Inl (Exception (ascii ''no parser'')))\<rparr>"

text \<open>
  The full-width digits U+FF10 to U+FF19 as the decimal digits beyond ASCII; a store in
  which the sample subscription was created for a user who has no row in the users table;
  and the sample store with a newer subscription whose date is written 01.06.2025.
\<close>

definition fullwidth_decimal :: "int \<Rightarrow> nat option" where
  "fullwidth_decimal c = (if 0xFF10 \<le> c \<and> c \<le> 0xFF19 then Some (nat (c - 0xFF10)) else None)"

definition unregistered_db :: database where
  "unregistered_db =
     snd (create_subscription_sql 200 42 moscow kazan june1 train1 kupe lower_berth empty_db)"

definition unregistered_world :: world where
  "unregistered_world = \<lparr>store = unregistered_db, telegram = [], calls = []\<rparr>"

definition dotted_june1 :: pystr where "dotted_june1 = ascii ''01.06.2025''"

definition dotted_db :: database where
  "dotted_db =
     snd (create_subscription_sql 210 42 moscow kazan dotted_june1 train2 kupe any_berth sample_db)"

definition dotted_world :: world where
  "dotted_world = \<lparr>store = dotted_db, telegram = [], calls = []\<rparr>"

section \<open>Lemmas\<close>

lemma next_rowid_greater: "x \<in> set ids \<Longrightarrow> x < next_rowid seq ids"
  unfolding next_rowid_def by (induction ids) auto

lemma active_join_add_check_history:
  "active_join (add_check_history_sql now j v info db) = active_join db"
  by (simp add: active_join_def add_check_history_sql_def Let_def)

lemma active_join_add_notification:
  "active_join (add_notification_sql now j m db) = active_join db"
  by (simp add: active_join_def add_notification_sql_def Let_def)

lemma get_active_add_check_history:
  "get_active_subscriptions_sql (add_check_history_sql now j v info db) = get_active_subscriptions_sql db"
  by (simp add: get_active_subscriptions_sql_def active_join_add_check_history)

lemma get_active_add_notification:
  "get_active_subscriptions_sql (add_notification_sql now j m db) = get_active_subscriptions_sql db"
  by (simp add: get_active_subscriptions_sql_def active_join_add_notification)

lemma insort_key_map_same:
  assumes "\<And>y. k (h y) = k y"
  shows "insort_key k (h x) (map h xs) = map h (insort_key k x xs)"
  using assms by (induction xs) auto

lemma sort_key_map_same:
  assumes "\<And>y. k (h y) = k y"
  shows "sort_key k (map h xs) = map h (sort_key k xs)"
  using assms by (induction xs) (simp_all add: insort_key_map_same)

lemma active_join_update_last_checked:
  "active_join (update_last_checked_sql now j db) =
     map (\<lambda>row. ((if s_id (fst row) = j then (fst row)\<lparr>s_last_checked := Some now\<rparr> else fst row), snd row))
         (active_join db)"
proof -
  have "concat (map (\<lambda>s. map (Pair s) (filter (\<lambda>u. s_user_id s = u_telegram_id u) us))
          (filter s_is_active
             (map (\<lambda>r. if s_id r = j then r\<lparr>s_last_checked := Some now\<rparr> else r) rows))) =
        map (\<lambda>row. ((if s_id (fst row) = j then (fst row)\<lparr>s_last_checked := Some now\<rparr> else fst row), snd row))
          (concat (map (\<lambda>s. map (Pair s) (filter (\<lambda>u. s_user_id s = u_telegram_id u) us))
             (filter s_is_active rows)))" for rows us
    by (induction rows) (auto simp: comp_def)
  then show ?thesis
    by (simp add: active_join_def update_last_checked_sql_def)
qed

lemma get_active_update_last_checked:
  "get_active_subscriptions_sql (update_last_checked_sql now j db) =
     map (touch now j) (get_active_subscriptions_sql db)"
  unfolding get_active_subscriptions_sql_def active_join_update_last_checked
  by (subst sort_key_map_same) (auto simp: row_dict_def touch_def split: prod.splits)

lemma active_join_deactivate:
  "active_join (deactivate_subscription_sql j db) = filter (\<lambda>row. s_id (fst row) \<noteq> j) (active_join db)"
proof -
  have "concat (map (\<lambda>s. map (Pair s) (filter (\<lambda>u. s_user_id s = u_telegram_id u) us))
          (filter s_is_active
             (map (\<lambda>r. if s_id r = j then r\<lparr>s_is_active := False\<rparr> else r) rows))) =
        filter (\<lambda>row. s_id (fst row) \<noteq> j)
          (concat (map (\<lambda>s. map (Pair s) (filter (\<lambda>u. s_user_id s = u_telegram_id u) us))
             (filter s_is_active rows)))" for rows us
    by (induction rows) (auto simp: comp_def filter_empty_conv)
  then show ?thesis
    by (simp add: active_join_def deactivate_subscription_sql_def)
qed

lemma get_active_deactivate:
  "get_active_subscriptions_sql (deactivate_subscription_sql j db) =
     filter (\<lambda>a. a_id a \<noteq> j) (get_active_subscriptions_sql db)"
proof -
  have "a_id (row_dict row) = s_id (fst row)" for row
    by (cases row) (simp add: row_dict_def)
  then show ?thesis
    unfolding get_active_subscriptions_sql_def active_join_deactivate
    by (simp add: filter_sort filter_map comp_def)
qed

lemma check_subscription_not_found:
  assumes "find (\<lambda>s. a_id s = j)
             (get_active_subscriptions (store_fault env Call_get_active_subscriptions) (store w))
           = None"
  shows "check_subscription env j w = logged Call_get_active_subscriptions w"
  using assms by (simp add: check_subscription_def check_subscription_try_def logged_def)

lemma check_subscription_raised:
  assumes "find (\<lambda>s. a_id s = j)
             (get_active_subscriptions (store_fault env Call_get_active_subscriptions) (store w))
           = Some a"
    and "probe env a = Inl e"
  shows "check_subscription_try env j w =
           (Some e, w\<lparr>calls := calls w @ [Call_get_active_subscriptions, Call_check_seat_availability j]\<rparr>)"
  using assms by (simp add: check_subscription_try_def logged_def probe_def)

lemma check_subscription_returned:
  assumes "find (\<lambda>s. a_id s = j)
             (get_active_subscriptions (store_fault env Call_get_active_subscriptions) (store w))
           = Some a"
    and "probe env a = Inr info"
  shows "check_subscription env j w =
           (let v = dict_get info ''available'' (PyBool False);
                w1 = w\<lparr>calls := calls w @ [Call_get_active_subscriptions, Call_check_seat_availability j,
                                            Call_update_last_checked j, Call_add_check_history j v],
                       store := snd (add_check_history (store_fault env (Call_add_check_history j v))
                                       (current_timestamp env) j v
                                       (if info \<noteq> [] then Some info else None)
                                       (snd (update_last_checked
                                               (store_fault env (Call_update_last_checked j))
                                               (current_timestamp env) j (store w))))\<rparr>
            in if truthy v then send_notification env a info w1 else w1)"
  using assms
  by (simp add: check_subscription_def check_subscription_try_def logged_def probe_def Let_def)

lemma send_notification_calls:
  "calls (send_notification env a info w) = calls w @ notify_calls env a info"
  by (simp add: send_notification_def notify_calls_def logged_def Let_def split: option.splits)

lemma forget_touch: "forget (touch now j a) = forget a"
  by (simp add: forget_def touch_def)

lemma a_id_forget: "a_id (forget a) = a_id a"
  by (simp add: forget_def)

lemma forget_eq_fields:
  assumes "forget a' = forget a"
  shows "a_id a' = a_id a" "a_telegram_id a' = a_telegram_id a"
    "a_train_number a' = a_train_number a" "a_departure_station a' = a_departure_station a"
    "a_arrival_station a' = a_arrival_station a" "a_departure_date a' = a_departure_date a"
    "a_seat_type a' = a_seat_type a" "a_berth_position a' = a_berth_position a"
  using arg_cong [OF assms, of a_id] arg_cong [OF assms, of a_telegram_id]
    arg_cong [OF assms, of a_train_number] arg_cong [OF assms, of a_departure_station]
    arg_cong [OF assms, of a_arrival_station] arg_cong [OF assms, of a_departure_date]
    arg_cong [OF assms, of a_seat_type] arg_cong [OF assms, of a_berth_position]
  by (simp_all add: forget_def)

lemma probe_forget:
  assumes h: "forget a' = forget a"
  shows "probe env a' = probe env a"
  by (simp add: probe_def forget_eq_fields [OF h])

lemma format_forget:
  assumes h: "forget a' = forget a"
  shows "format_notification_message t a' info = format_notification_message t a info"
  by (simp add: format_notification_message_def forget_eq_fields [OF h] Let_def cong: if_cong)

lemma delivers_forget:
  assumes h: "forget a' = forget a"
  shows "delivers env a' info = delivers env a info"
  by (simp add: delivers_def forget_eq_fields [OF h] format_forget [OF h] cong: option.case_cong)

lemma history_of_probe_forget:
  assumes h: "forget a' = forget a"
  shows "history_of_probe env a' = history_of_probe env a"
  by (simp add: history_of_probe_def forget_eq_fields [OF h] probe_forget [OF h] cong: sum.case_cong)

lemma notification_of_probe_forget:
  assumes h: "forget a' = forget a"
  shows "notification_of_probe env a' = notification_of_probe env a"
  by (simp add: notification_of_probe_def forget_eq_fields [OF h] probe_forget [OF h]
        delivers_forget [OF h] cong: sum.case_cong if_cong)

lemma find_forget:
  assumes "map forget L = map forget L0" and "distinct (map a_id L0)"
    and "forget t \<in> set (map forget L0)"
  shows "\<exists>a'. find (\<lambda>s. a_id s = a_id t) L = Some a' \<and> forget a' = forget t"
proof -
  have ids: "map a_id L = map a_id L0"
  proof -
    have "map a_id L = map a_id (map forget L)" by (simp add: comp_def a_id_forget)
    also have "\<dots> = map a_id (map forget L0)" using assms(1) by simp
    also have "\<dots> = map a_id L0" by (simp add: comp_def a_id_forget)
    finally show ?thesis .
  qed
  from assms(3) assms(1) have "forget t \<in> set (map forget L)" by simp
  then obtain b where b: "b \<in> set L" "forget b = forget t" by auto
  then have idb: "a_id b = a_id t" using forget_eq_fields(1) [of b t] by simp
  with b(1) have "find (\<lambda>s. a_id s = a_id t) L \<noteq> None"
    by (auto simp: find_None_iff)
  then obtain a' where f: "find (\<lambda>s. a_id s = a_id t) L = Some a'" by auto
  then have a': "a' \<in> set L" "a_id a' = a_id t"
    by (auto simp: find_Some_iff in_set_conv_nth)
  from assms(2) ids have "distinct (map a_id L)" by simp
  then have "inj_on a_id (set L)" by (simp add: distinct_map)
  with a' b(1) idb have "a' = b" using inj_onD [of a_id "set L" a' b] by simp
  with f b(2) show ?thesis by simp
qed

lemma send_notification_listing:
  "get_active_subscriptions_sql (store (send_notification env a info w)) =
     get_active_subscriptions_sql (store w)"
  by (simp add: send_notification_def logged_def Let_def add_notification_def
        get_active_add_notification split: option.splits)

lemma send_notification_history:
  "check_history (store (send_notification env a info w)) = check_history (store w)"
  by (simp add: send_notification_def logged_def Let_def add_notification_def
        add_notification_sql_def split: option.splits)

lemma send_notification_notified:
  assumes "store_fault env (Call_add_notification (a_id a)) = None"
  shows "notified (send_notification env a info w) =
           notified w @ (if delivers env a info then [a_id a] else [])"
  using assms
  by (simp add: send_notification_def logged_def Let_def add_notification_def
        add_notification_sql_def notified_def delivers_def split: option.splits)

lemma send_notification_telegram:
  "telegram (send_notification env a info w) =
     telegram w @ (if delivers env a info
                   then [(a_telegram_id a, format_notification_message (now_strftime env) a info)]
                   else [])"
  by (simp add: send_notification_def logged_def Let_def delivers_def split: option.splits)

lemma probes_notify_calls: "probes (w\<lparr>calls := calls w @ notify_calls env a info\<rparr>) = probes w"
  by (auto simp: probes_def notify_calls_def split: option.splits)

lemma check_subscription_effect:
  assumes ok: "\<And>c. store_fault env c = None"
    and f: "find (\<lambda>s. a_id s = j) (get_active_subscriptions_sql (store w)) = Some a"
  shows "map forget (get_active_subscriptions_sql (store (check_subscription env j w))) =
           map forget (get_active_subscriptions_sql (store w))"
    and "history_entries (check_subscription env j w) =
           history_entries w @ (case probe env a of Inl e \<Rightarrow> []
              | Inr info \<Rightarrow> [(j, dict_get info ''available'' (PyBool False))])"
    and "notified (check_subscription env j w) =
           notified w @ (case probe env a of Inl e \<Rightarrow> []
              | Inr info \<Rightarrow> if truthy (dict_get info ''available'' (PyBool False)) \<and> delivers env a info
                            then [a_id a] else [])"
    and "probes (check_subscription env j w) = probes w @ [j]"
proof -
  have f': "find (\<lambda>s. a_id s = j)
              (get_active_subscriptions (store_fault env Call_get_active_subscriptions) (store w))
            = Some a"
    using f by (simp add: get_active_subscriptions_def ok)
  have st: "snd (add_check_history (store_fault env c1) now j v si
             (snd (update_last_checked (store_fault env c2) now j db))) =
           add_check_history_sql now j v si (update_last_checked_sql now j db)"
    for c1 c2 now v si db
    by (simp add: add_check_history_def update_last_checked_def ok)
  show "map forget (get_active_subscriptions_sql (store (check_subscription env j w))) =
           map forget (get_active_subscriptions_sql (store w))"
  proof (cases "probe env a")
    case (Inl e)
    from check_subscription_raised [OF f' Inl] show ?thesis
      by (simp add: check_subscription_def)
  next
    case (Inr info)
    from check_subscription_returned [OF f' Inr] show ?thesis
      by (simp add: Let_def st send_notification_listing get_active_add_check_history
            get_active_update_last_checked comp_def forget_touch)
  qed
  show "history_entries (check_subscription env j w) =
           history_entries w @ (case probe env a of Inl e \<Rightarrow> []
              | Inr info \<Rightarrow> [(j, dict_get info ''available'' (PyBool False))])"
  proof (cases "probe env a")
    case (Inl e)
    from check_subscription_raised [OF f' Inl] show ?thesis
      by (simp add: check_subscription_def history_entries_def Inl)
  next
    case (Inr info)
    from check_subscription_returned [OF f' Inr] show ?thesis
      by (simp add: Let_def st history_entries_def send_notification_history Inr
            add_check_history_sql_def update_last_checked_sql_def)
  qed
  show "notified (check_subscription env j w) =
           notified w @ (case probe env a of Inl e \<Rightarrow> []
              | Inr info \<Rightarrow> if truthy (dict_get info ''available'' (PyBool False)) \<and> delivers env a info
                            then [a_id a] else [])"
  proof (cases "probe env a")
    case (Inl e)
    from check_subscription_raised [OF f' Inl] show ?thesis
      by (simp add: check_subscription_def notified_def Inl)
  next
    case (Inr info)
    from check_subscription_returned [OF f' Inr] show ?thesis
      by (simp add: Let_def st send_notification_notified [OF ok] Inr)
         (simp add: notified_def add_check_history_sql_def update_last_checked_sql_def Let_def)
  qed
  show "probes (check_subscription env j w) = probes w @ [j]"
  proof (cases "probe env a")
    case (Inl e)
    from check_subscription_raised [OF f' Inl] show ?thesis
      by (simp add: check_subscription_def probes_def)
  next
    case (Inr info)
    have "probes (send_notification env a info w') = probes w'" for w'
      using probes_notify_calls [of w' env a info]
      by (simp add: probes_def send_notification_calls)
    with check_subscription_returned [OF f' Inr] show ?thesis
      by (simp add: Let_def) (simp add: probes_def)
  qed
qed

lemma tasks_fold:
  assumes ok: "\<And>c. store_fault env c = None"
    and d: "distinct (map a_id L0)"
  shows "map forget (get_active_subscriptions_sql (store w)) = map forget L0 \<Longrightarrow>
         set (map forget ts) \<subseteq> set (map forget L0) \<Longrightarrow>
         map forget (get_active_subscriptions_sql
            (store (fold (\<lambda>t. check_subscription env (a_id t)) ts w))) = map forget L0 \<and>
         history_entries (fold (\<lambda>t. check_subscription env (a_id t)) ts w) =
            history_entries w @ concat (map (history_of_probe env) ts) \<and>
         notified (fold (\<lambda>t. check_subscription env (a_id t)) ts w) =
            notified w @ concat (map (notification_of_probe env) ts) \<and>
         probes (fold (\<lambda>t. check_subscription env (a_id t)) ts w) = probes w @ map a_id ts"
proof (induction ts arbitrary: w)
  case Nil
  then show ?case by simp
next
  case (Cons t ts)
  from Cons.prems(2) have t: "forget t \<in> set (map forget L0)" by simp
  from find_forget [OF Cons.prems(1) d t]
  obtain a' where f: "find (\<lambda>s. a_id s = a_id t) (get_active_subscriptions_sql (store w)) = Some a'"
    and fa: "forget a' = forget t" by blast
  let ?w1 = "check_subscription env (a_id t) w"
  note eff = check_subscription_effect [OF ok f]
  have inv1: "map forget (get_active_subscriptions_sql (store ?w1)) = map forget L0"
    using eff(1) Cons.prems(1) by simp
  have h1: "history_entries ?w1 = history_entries w @ history_of_probe env t"
    using eff(2) by (simp add: history_of_probe_def probe_forget [OF fa])
  have n1: "notified ?w1 = notified w @ notification_of_probe env t"
    using eff(3) notification_of_probe_forget [OF fa, of env]
    by (simp add: notification_of_probe_def)
  have p1: "probes ?w1 = probes w @ [a_id t]"
    using eff(4) .
  from Cons.prems(2) have sub: "set (map forget ts) \<subseteq> set (map forget L0)" by simp
  from Cons.IH [OF inv1 sub] h1 n1 p1 show ?case by simp
qed

lemma check_all_effect:
  assumes ok: "\<And>c. store_fault env c = None"
    and d: "distinct (map a_id (get_active_subscriptions_sql (store w)))"
  shows "map forget (get_active_subscriptions_sql (store (check_all_subscriptions env w))) =
           map forget (get_active_subscriptions_sql (store w))"
    and "history_entries (check_all_subscriptions env w) =
           history_entries w @
           concat (map (history_of_probe env) (get_active_subscriptions_sql (store w)))"
    and "notified (check_all_subscriptions env w) =
           notified w @
           concat (map (notification_of_probe env) (get_active_subscriptions_sql (store w)))"
    and "probes (check_all_subscriptions env w) =
           probes w @ map a_id (get_active_subscriptions_sql (store w))"
proof -
  let ?L = "get_active_subscriptions_sql (store w)"
  let ?w0 = "logged Call_get_active_subscriptions w"
  have s0: "store ?w0 = store w" by (simp add: logged_def)
  have c: "check_all_subscriptions env w = fold (\<lambda>t. check_subscription env (a_id t)) ?L ?w0"
    by (simp add: check_all_subscriptions_def Let_def get_active_subscriptions_def ok)
  have inv: "map forget (get_active_subscriptions_sql (store ?w0)) = map forget ?L"
    by (simp add: s0)
  have obs: "history_entries ?w0 = history_entries w" "notified ?w0 = notified w" "probes ?w0 = probes w"
    by (simp_all add: history_entries_def notified_def probes_def logged_def)
  from tasks_fold [OF ok d inv, of ?L] obs c
  show "map forget (get_active_subscriptions_sql (store (check_all_subscriptions env w))) =
           map forget (get_active_subscriptions_sql (store w))"
    and "history_entries (check_all_subscriptions env w) =
           history_entries w @
           concat (map (history_of_probe env) (get_active_subscriptions_sql (store w)))"
    and "notified (check_all_subscriptions env w) =
           notified w @
           concat (map (notification_of_probe env) (get_active_subscriptions_sql (store w)))"
    and "probes (check_all_subscriptions env w) =
           probes w @ map a_id (get_active_subscriptions_sql (store w))"
    by simp_all
qed

lemma count_list_distinct_member:
  "distinct xs \<Longrightarrow> x \<in> set xs \<Longrightarrow> count_list xs x = 1"
  by (induction xs) (auto simp: count_list_0_iff)

lemma count_concat_distinct:
  assumes "distinct (map k L)" and "s \<in> set L"
    and "\<And>t p. p \<in> set (f t) \<Longrightarrow> key p = k t" and "key x = k s"
  shows "count_list (concat (map f L)) x = count_list (f s) x"
  using assms(1,2)
proof (induction L)
  case Nil
  then show ?case by simp
next
  case (Cons t L)
  show ?case
  proof (cases "t = s")
    case True
    with Cons.prems(1) have "\<forall>u\<in>set L. k u \<noteq> k s" by (auto simp: image_iff)
    then have "x \<notin> set (concat (map f L))"
      using assms(3,4) by fastforce
    then have "count_list (concat (map f L)) x = 0" by (simp add: count_list_0_iff)
    with True show ?thesis by simp
  next
    case False
    with Cons.prems have sL: "s \<in> set L" and "k t \<noteq> k s" by auto
    then have "x \<notin> set (f t)" using assms(3,4) by fastforce
    then have "count_list (f t) x = 0" by (simp add: count_list_0_iff)
    moreover from Cons.prems(1) have "distinct (map k L)" by simp
    ultimately show ?thesis using Cons.IH sL by simp
  qed
qed

lemma forget_idem: "forget (forget a) = forget a"
  by (simp add: forget_def)

lemma map_respects_forget:
  assumes "map forget L = map forget L0"
    and r: "\<And>a a'. forget a' = forget a \<Longrightarrow> f a' = f a"
  shows "map f L = map f L0"
proof -
  have ff: "f (forget a) = f a" for a
    by (rule r) (rule forget_idem)
  have "map f L = map f (map forget L)" by (simp add: comp_def ff)
  also have "\<dots> = map f (map forget L0)" using assms(1) by simp
  also have "\<dots> = map f L0" by (simp add: comp_def ff)
  finally show ?thesis .
qed

lemma run_cycles_notified:
  assumes d: "distinct (map a_id L0)"
  shows "\<forall>env\<in>set envs. \<forall>c. store_fault env c = None \<Longrightarrow>
         map forget (get_active_subscriptions_sql (store w)) = map forget L0 \<Longrightarrow>
         map forget (get_active_subscriptions_sql (store (run_cycles envs w))) = map forget L0 \<and>
         notified (run_cycles envs w) =
           notified w @ concat (map (\<lambda>env. concat (map (notification_of_probe env) L0)) envs)"
proof (induction envs arbitrary: w)
  case Nil
  then show ?case by (simp add: run_cycles_def)
next
  case (Cons env envs)
  let ?L = "get_active_subscriptions_sql (store w)"
  from Cons.prems(1) have ok: "\<And>c. store_fault env c = None"
    and oks: "\<forall>env\<in>set envs. \<forall>c. store_fault env c = None" by simp_all
  have "map a_id ?L = map a_id L0"
    using map_respects_forget [OF Cons.prems(2), of a_id] forget_eq_fields(1) by blast
  with d have dL: "distinct (map a_id ?L)" by simp
  note eff = check_all_effect [OF ok dL]
  have inv1: "map forget (get_active_subscriptions_sql (store (check_all_subscriptions env w)))
                = map forget L0"
    using eff(1) Cons.prems(2) by simp
  have "map (notification_of_probe env) ?L = map (notification_of_probe env) L0"
    using map_respects_forget [OF Cons.prems(2), of "notification_of_probe env"]
      notification_of_probe_forget by blast
  then have n1: "notified (check_all_subscriptions env w) =
      notified w @ concat (map (notification_of_probe env) L0)"
    using eff(3) by simp
  have rc: "run_cycles (env # envs) w = run_cycles envs (check_all_subscriptions env w)"
    by (simp add: run_cycles_def)
  from Cons.IH [OF oks inv1] n1 rc show ?case by simp
qed

lemma deactivate_ids:
  "map s_id (subscriptions (deactivate_subscription_sql i db)) = map s_id (subscriptions db)"
  by (simp add: deactivate_subscription_sql_def comp_def)

lemma deactivate_no_match:
  assumes "\<forall>r'\<in>set (subscriptions db).
             existing_sub_match u dep arr dt tr st bp r' \<longrightarrow> s_id r' = i"
  shows "find (existing_sub_match u dep arr dt tr st bp)
           (subscriptions (deactivate_subscription_sql i db)) = None"
  using assms
  by (auto simp: find_None_iff deactivate_subscription_sql_def existing_sub_match_def)

lemma find_Some_set: "find P xs = Some x \<Longrightarrow> x \<in> set xs \<and> P x"
  by (induction xs) (auto split: if_splits)

lemma find_append_new: "find P xs = None \<Longrightarrow> P x \<Longrightarrow> find P (xs @ [x]) = Some x"
  by (induction xs) (auto split: if_splits)

lemma cleanup_loop_all_parse:
  assumes ok: "\<And>c. fault c = None"
    and "\<forall>t\<in>set ts. \<exists>d. strptime_ymd unicode_decimal (a_departure_date t) = Inr d"
  shows "fst (cleanup_loop unicode_decimal fault today ts w) = None \<and>
         store (snd (cleanup_loop unicode_decimal fault today ts w)) =
           fold deactivate_subscription_sql
             (map a_id (filter (\<lambda>t. past_departure unicode_decimal today (a_departure_date t)) ts)) (store w)"
  using assms(2)
proof (induction ts arbitrary: w)
  case Nil
  then show ?case by simp
next
  case (Cons t ts)
  then obtain d where d: "strptime_ymd unicode_decimal (a_departure_date t) = Inr d" by auto
  from Cons.prems have rest: "\<forall>t\<in>set ts. \<exists>d. strptime_ymd unicode_decimal (a_departure_date t) = Inr d" by simp
  show ?case
  proof (cases "date_less d today")
    case True
    let ?w1 = "(logged (Call_deactivate_subscription (a_id t)) w)\<lparr>store :=
                 deactivate_subscription_sql (a_id t) (store w)\<rparr>"
    have "cleanup_loop unicode_decimal fault today (t # ts) w = cleanup_loop unicode_decimal fault today ts ?w1"
      using d True by (simp add: Let_def logged_def deactivate_subscription_def ok)
    with Cons.IH [OF rest, of ?w1] d True show ?thesis
      by (simp add: past_departure_def)
  next
    case False
    have "cleanup_loop unicode_decimal fault today (t # ts) w = cleanup_loop unicode_decimal fault today ts w"
      using d False by simp
    with Cons.IH [OF rest, of w] d False show ?thesis
      by (simp add: past_departure_def)
  qed
qed

lemma fold_deactivate_subscriptions:
  "subscriptions (fold deactivate_subscription_sql D db) =
     map (\<lambda>r. if s_id r \<in> set D then r\<lparr>s_is_active := False\<rparr> else r) (subscriptions db)"
proof (induction D arbitrary: db)
  case Nil
  then show ?case by simp
next
  case (Cons i D)
  have "subscriptions (fold deactivate_subscription_sql (i # D) db) =
        map (\<lambda>r. if s_id r \<in> set D then r\<lparr>s_is_active := False\<rparr> else r)
          (subscriptions (deactivate_subscription_sql i db))"
    using Cons.IH [of "deactivate_subscription_sql i db"] by simp
  also have "\<dots> = map (\<lambda>r. if s_id r \<in> set (i # D) then r\<lparr>s_is_active := False\<rparr> else r)
                      (subscriptions db)"
    by (simp add: deactivate_subscription_sql_def)
  finally show ?case .
qed

lemma fold_deactivate_listing:
  "get_active_subscriptions_sql (fold deactivate_subscription_sql D db) =
     filter (\<lambda>a. a_id a \<notin> set D) (get_active_subscriptions_sql db)"
proof (induction D arbitrary: db)
  case Nil
  then show ?case by simp
next
  case (Cons i D)
  have "get_active_subscriptions_sql (fold deactivate_subscription_sql (i # D) db) =
        filter (\<lambda>a. a_id a \<notin> set D) (get_active_subscriptions_sql (deactivate_subscription_sql i db))"
    using Cons.IH [of "deactivate_subscription_sql i db"] by simp
  also have "\<dots> = filter (\<lambda>a. a_id a \<notin> set (i # D)) (get_active_subscriptions_sql db)"
    by (auto simp: get_active_deactivate intro: filter_cong)
  finally show ?case .
qed

lemma set_active_join:
  "set (active_join db) =
     {(s, u). s \<in> set (subscriptions db) \<and> s_is_active s \<and> u \<in> set (users db) \<and>
              s_user_id s = u_telegram_id u}"
  by (auto simp: active_join_def)

lemma set_get_active:
  "set (get_active_subscriptions_sql db) = row_dict ` set (active_join db)"
  by (simp add: get_active_subscriptions_sql_def)

lemma row_dict_fields:
  "a_id (row_dict (s, u)) = s_id s" "a_departure_date (row_dict (s, u)) = s_departure_date s"
  by (simp_all add: row_dict_def)

lemma filter_key_at_most_one:
  "distinct (map k xs) \<Longrightarrow> length (filter (\<lambda>x. v = k x) xs) \<le> 1"
proof (induction xs)
  case Nil
  then show ?case by simp
next
  case (Cons x xs)
  show ?case
  proof (cases "v = k x")
    case True
    with Cons.prems have "\<forall>y\<in>set xs. v \<noteq> k y" by (auto simp: image_iff)
    then have "filter (\<lambda>x. v = k x) xs = []" by (simp add: filter_empty_conv)
    with True show ?thesis by simp
  next
    case False
    with Cons show ?thesis by simp
  qed
qed

lemma active_join_ids_distinct:
  assumes u: "distinct (map u_telegram_id us)"
  shows "distinct (map s_id rows) \<Longrightarrow>
         distinct (map (\<lambda>row. s_id (fst row))
           (concat (map (\<lambda>s. map (Pair s) (filter (\<lambda>u. s_user_id s = u_telegram_id u) us))
              (filter s_is_active rows)))) \<and>
         (\<lambda>row. s_id (fst row)) `
           set (concat (map (\<lambda>s. map (Pair s) (filter (\<lambda>u. s_user_id s = u_telegram_id u) us))
              (filter s_is_active rows))) \<subseteq> s_id ` set rows"
proof (induction rows)
  case Nil
  then show ?case by simp
next
  case (Cons r rows)
  let ?g = "\<lambda>s. map (Pair s) (filter (\<lambda>u. s_user_id s = u_telegram_id u) us)"
  let ?f = "\<lambda>row. s_id (fst row)"
  from Cons have IH: "distinct (map ?f (concat (map ?g (filter s_is_active rows))))"
    and sub: "?f ` set (concat (map ?g (filter s_is_active rows))) \<subseteq> s_id ` set rows"
    by simp_all
  from Cons.prems have nr: "s_id r \<notin> s_id ` set rows" by simp
  have one: "length (filter (\<lambda>u. s_user_id r = u_telegram_id u) us) \<le> 1"
    using u by (rule filter_key_at_most_one)
  have m: "map ?f (?g r) = replicate (length (filter (\<lambda>u. s_user_id r = u_telegram_id u) us)) (s_id r)"
    by (simp add: comp_def map_replicate_const)
  have d: "distinct (map ?f (?g r))"
  proof (cases "filter (\<lambda>u. s_user_id r = u_telegram_id u) us")
    case Nil
    then show ?thesis by simp
  next
    case (Cons a as)
    with one have "as = []" by simp
    with Cons show ?thesis by simp
  qed
  have img: "?f ` set (?g r) \<subseteq> {s_id r}" by auto
  show ?case
  proof (cases "s_is_active r")
    case True
    have "set (map ?f (?g r)) \<inter> set (map ?f (concat (map ?g (filter s_is_active rows)))) = {}"
      using img sub nr by auto
    with d IH True sub img show ?thesis by auto
  next
    case False
    with IH sub show ?thesis by auto
  qed
qed

lemma listing_distinct:
  assumes "distinct (map s_id (subscriptions db))" and "distinct (map u_telegram_id (users db))"
  shows "distinct (map a_id (get_active_subscriptions_sql db))"
proof -
  have a: "a_id (row_dict row) = s_id (fst row)" for row
    by (cases row) (simp add: row_dict_def)
  have "distinct (map (\<lambda>row. s_id (fst row)) (active_join db))"
    unfolding active_join_def using active_join_ids_distinct [OF assms(2) assms(1)] by simp
  then have "distinct (map (\<lambda>row. s_id (fst row))
                (sort_key (\<lambda>row. - s_created_at (fst row)) (active_join db)))"
    by (simp add: distinct_map)
  then show ?thesis
    by (simp add: get_active_subscriptions_sql_def comp_def a)
qed

lemma strptime_ymd_ascii:
  "strptime_ymd unicode_decimal (ascii ''2025-06-01'') = Inr (2025, 6, 1)"
  by (simp add: strptime_ymd_def ascii_def is_digit_def decimal_value_def int_of_digits_def
        days_in_month_def)

lemma strptime_ymd_fullwidth_year:
  "strptime_ymd fullwidth_decimal [0xFF12, 0xFF10, 0xFF12, 0xFF15, 45, 48, 54, 45, 48, 49]
     = Inr (2025, 6, 1)"
  by code_simp


lemma check_general_availability_available:
  "\<exists>v. map_of (check_general_availability P page st bp) ''available'' = Some v"
  by (simp add: check_general_availability_def check_general_availability_try_def Let_def
        split: sum.splits)

lemma check_general_availability_failure:
  "check_general_availability_try P page st bp = Inl e \<Longrightarrow>
     failure_result (check_general_availability P page st bp)"
  by (simp add: check_general_availability_def failure_result_def)

lemma parse_seat_availability_available:
  "\<exists>v. map_of (parse_seat_availability P html st bp) ''available'' = Some v"
  by (simp add: parse_seat_availability_def parse_seat_availability_try_def
        check_general_availability_available split: sum.splits option.splits if_splits)

lemma parse_seat_availability_failure:
  "parse_seat_availability_try P html st bp = Inl e \<Longrightarrow>
     failure_result (parse_seat_availability P html st bp)"
  by (simp add: parse_seat_availability_def failure_result_def)

lemma failure_result_not_truthy:
  "failure_result d \<Longrightarrow> \<not> truthy (dict_get d ''available'' (PyBool False))"
  by (simp add: failure_result_def dict_get_def)

lemma format_notification_message_closed:
  "format_notification_message t s info =
     msg_title @
     msg_train @ a_train_number s @ nl @
     msg_route @ a_departure_station s @ msg_arrow @ a_arrival_station s @ nl @
     msg_date @ a_departure_date s @ nl @
     msg_seat_type @ a_seat_type s @ nl @
     (if a_berth_position s \<noteq> any_berth then msg_berth @ a_berth_position s @ nl else []) @
     (if truthy (dict_get info ''price'' PyNone)
      then msg_price @ py_str (dict_get info ''price'' PyNone) @ nl else []) @
     (if truthy (dict_get info ''car_number'' PyNone)
      then msg_car @ py_str (dict_get info ''car_number'' PyNone) @ nl else []) @
     (if truthy (dict_get info ''seat_number'' PyNone)
      then msg_seat @ py_str (dict_get info ''seat_number'' PyNone) @ nl else []) @
     msg_time @ t @ msg_link"
  by (simp add: format_notification_message_def Let_def)

lemma sublist_between: "m = ps @ xs @ ss \<Longrightarrow> sublist xs m"
  by simp

lemma create_subscription_sql_idempotent:
  "((\<exists>r\<in>set (subscriptions db). existing_sub_match u dep arr dt tr st bp r) \<longrightarrow>
      (\<exists>r\<in>set (subscriptions db). existing_sub_match u dep arr dt tr st bp r \<and>
         create_subscription_sql now u dep arr dt tr st bp db = (s_id r, db))) \<and>
   create_subscription_sql now' u dep arr dt tr st bp
      (snd (create_subscription_sql now u dep arr dt tr st bp db))
     = create_subscription_sql now u dep arr dt tr st bp db"
proof (cases "find (existing_sub_match u dep arr dt tr st bp) (subscriptions db)")
  case None
  then have no: "\<not> (\<exists>r\<in>set (subscriptions db). existing_sub_match u dep arr dt tr st bp r)"
    by (simp add: find_None_iff)
  let ?i = "next_rowid (seq_subscriptions db) (map s_id (subscriptions db))"
  let ?row = "\<lparr>s_id = ?i, s_user_id = u, s_departure_station = dep, s_arrival_station = arr,
      s_departure_date = dt, s_train_number = tr, s_seat_type = st, s_berth_position = bp,
      s_is_active = True, s_created_at = now, s_last_checked = None\<rparr>"
  have m: "existing_sub_match u dep arr dt tr st bp ?row"
    by (simp add: existing_sub_match_def)
  have "find (existing_sub_match u dep arr dt tr st bp) (subscriptions db @ [?row]) = Some ?row"
    using None m by (rule find_append_new)
  with None no show ?thesis
    by (simp add: create_subscription_sql_def Let_def)
next
  case (Some r)
  then have "r \<in> set (subscriptions db) \<and> existing_sub_match u dep arr dt tr st bp r"
    by (rule find_Some_set)
  with Some show ?thesis
    by (auto simp: create_subscription_sql_def)
qed

section \<open>Properties\<close>

subsection \<open>Notification policy\<close>

text \<open>
  C1, as the code has it. A notification is sent and saved for a subscription in every
  cycle whose answer for it is available, whatever the answer of the cycle before: over
  any sequence of cycles in which the bot delivers and the store works, the number of
  notifications of a listed subscription grows by the number of cycles with an available
  answer. The store keeps its keys: subscription identifiers and the users' Telegram
  identifiers are distinct.
\<close>

theorem notifications_level_triggered:
  assumes pk: "distinct (map s_id (subscriptions (store w)))"
    and uk: "distinct (map u_telegram_id (users (store w)))"
    and s: "s \<in> set (get_active_subscriptions_sql (store w))"
    and b: "\<forall>env\<in>set envs. \<exists>send_message. bot env = Some send_message \<and>
              (\<forall>chat text. send_message chat text = None)"
    and ok: "\<forall>env\<in>set envs. \<forall>c. store_fault env c = None"
  shows "count_list (notified (run_cycles envs w)) (a_id s) =
           count_list (notified w) (a_id s) + length (filter (\<lambda>env. verdict env s) envs)"
proof -
  have d: "distinct (map a_id (get_active_subscriptions_sql (store w)))"
    using pk uk by (rule listing_distinct)
  let ?L = "get_active_subscriptions_sql (store w)"
  let ?g = "\<lambda>env. concat (map (notification_of_probe env) ?L)"
  have one: "count_list (?g env) (a_id s) = (if verdict env s then 1 else 0)"
    if e: "env \<in> set envs" for env
  proof -
    from b e obtain send_message where sm: "bot env = Some send_message"
      "\<forall>chat text. send_message chat text = None" by blast
    then have del: "delivers env s info" for info by (simp add: delivers_def)
    have "count_list (?g env) (a_id s) = count_list (notification_of_probe env s) (a_id s)"
      by (rule count_concat_distinct [where k = a_id and key = "\<lambda>x. x", OF d s])
         (auto simp: notification_of_probe_def split: sum.splits if_splits)
    also have "\<dots> = (if verdict env s then 1 else 0)"
      by (simp add: notification_of_probe_def verdict_def del split: sum.splits)
    finally show ?thesis .
  qed
  have sum: "count_list (concat (map ?g es)) (a_id s) = length (filter (\<lambda>env. verdict env s) es)"
    if "set es \<subseteq> set envs" for es
    using that by (induction es) (simp_all add: one)
  from run_cycles_notified [OF d ok, of w]
  have "notified (run_cycles envs w) = notified w @ concat (map ?g envs)" by simp
  then show ?thesis by (simp add: sum)
qed

text \<open>
  The answers False, True, True, False, True for the sample subscription give three
  notifications.
\<close>

theorem notifications_level_triggered_witness:
  "distinct (map s_id (subscriptions (store sample_world))) \<and>
   distinct (map u_telegram_id (users (store sample_world))) \<and>
   sample_subscription \<in> set (get_active_subscriptions_sql (store sample_world)) \<and>
   count_list (notified (run_cycles (map verdict_env [False, True, True, False, True])
                  sample_world)) (a_id sample_subscription) = 3"
proof -
  have h0: "distinct (map s_id (subscriptions (store sample_world)))"
    by code_simp
  have h1: "distinct (map u_telegram_id (users (store sample_world)))"
    by code_simp
  have h2: "sample_subscription \<in> set (get_active_subscriptions_sql (store sample_world))"
    by code_simp
  have h3: "\<forall>env\<in>set (map verdict_env [False, True, True, False, True]).
      \<exists>send_message. bot env = Some send_message \<and>
        (\<forall>chat text. send_message chat text = None)"
    by (simp add: verdict_env_def)
  have h4: "\<forall>env\<in>set (map verdict_env [False, True, True, False, True]).
      \<forall>c. store_fault env c = None"
    by (simp add: verdict_env_def)
  have n0: "count_list (notified sample_world) (a_id sample_subscription) = 0"
    by code_simp
  have n1: "length (filter (\<lambda>env. verdict env sample_subscription)
              (map verdict_env [False, True, True, False, True])) = 3"
    by code_simp
  from notifications_level_triggered [OF h0 h1 h2 h3 h4] n0 n1
  have "count_list (notified (run_cycles (map verdict_env [False, True, True, False, True])
                  sample_world)) (a_id sample_subscription) = 3"
    by simp
  with h0 h1 h2 show ?thesis by blast
qed

text \<open>
  C1, as stated, fails on the sample subscription: after the answers False, True one
  message has been delivered, after False, True, True a second one although the answer
  did not change, and after all five answers three messages, not two.
\<close>

theorem edge_triggered_counterexample:
  "length (telegram (run_cycles (map verdict_env [False, True]) sample_world)) = 1 \<and>
   length (telegram (run_cycles (map verdict_env [False, True, True]) sample_world)) = 2 \<and>
   length (telegram (run_cycles (map verdict_env [False, True, True, False, True])
             sample_world)) = 3 \<and>
   notified (run_cycles (map verdict_env [False, True, True, False, True]) sample_world)
     = [1, 1, 1]"
  by code_simp

subsection \<open>Creating subscriptions\<close>

text \<open>
  C2. When an active subscription with the same user, route, date, train, class and berth
  exists, \<open>create_subscription\<close> returns the identifier of such a subscription and
  leaves the store as it is; and a second call with the same values, right after a first,
  returns the identifier that the first returned and inserts nothing. (Both calls are
  calls that the storage engine lets through.)
\<close>

theorem create_subscription_idempotent:
  "((\<exists>r\<in>set (subscriptions db). existing_sub_match u dep arr dt tr st bp r) \<longrightarrow>
      (\<exists>r\<in>set (subscriptions db). existing_sub_match u dep arr dt tr st bp r \<and>
         create_subscription None now u dep arr dt tr st bp db = Inr (s_id r, db))) \<and>
   (\<exists>subscription_id db'.
      create_subscription None now u dep arr dt tr st bp db = Inr (subscription_id, db') \<and>
      create_subscription None now' u dep arr dt tr st bp db' = Inr (subscription_id, db'))"
proof -
  note sql = create_subscription_sql_idempotent [of db u dep arr dt tr st bp now now']
  obtain i db' where p: "create_subscription_sql now u dep arr dt tr st bp db = (i, db')"
    by (cases "create_subscription_sql now u dep arr dt tr st bp db")
  with sql have "create_subscription_sql now' u dep arr dt tr st bp db' = (i, db')" by simp
  with p have "create_subscription None now u dep arr dt tr st bp db = Inr (i, db') \<and>
      create_subscription None now' u dep arr dt tr st bp db' = Inr (i, db')"
    by (simp add: create_subscription_def)
  moreover from sql have "(\<exists>r\<in>set (subscriptions db). existing_sub_match u dep arr dt tr st bp r) \<longrightarrow>
      (\<exists>r\<in>set (subscriptions db). existing_sub_match u dep arr dt tr st bp r \<and>
         create_subscription None now u dep arr dt tr st bp db = Inr (s_id r, db))"
    by (simp add: create_subscription_def)
  ultimately show ?thesis by blast
qed

text \<open>
  On the sample store, creating the sample subscription again returns its identifier 1 and
  the same store.
\<close>

theorem create_subscription_idempotent_witness:
  "(\<exists>r\<in>set (subscriptions sample_db).
      existing_sub_match 42 moscow kazan june1 train1 kupe lower_berth r) \<and>
   (\<exists>r\<in>set (subscriptions sample_db).
      existing_sub_match 42 moscow kazan june1 train1 kupe lower_berth r \<and>
      create_subscription None 500 42 moscow kazan june1 train1 kupe lower_berth sample_db
        = Inr (s_id r, sample_db)) \<and>
   fst (projr (create_subscription None 500 42 moscow kazan june1 train1 kupe lower_berth
                 sample_db)) = 1"
proof -
  have h: "\<exists>r\<in>set (subscriptions sample_db).
      existing_sub_match 42 moscow kazan june1 train1 kupe lower_berth r"
    by code_simp
  have v: "fst (projr (create_subscription None 500 42 moscow kazan june1 train1 kupe lower_berth
                 sample_db)) = 1"
    by code_simp
  from create_subscription_idempotent [of sample_db 42 moscow kazan june1 train1 kupe lower_berth 500] h v
  show ?thesis by blast
qed

text \<open>
  C10. The duplicate check sees only active rows. When the active subscription with the
  given values (the only active one with them) has been deactivated, creating a
  subscription with the same values inserts a new row, active and with these values, and
  returns its identifier, which differs from the deactivated subscription's and from every
  identifier in the table.
\<close>

theorem create_after_deactivation:
  assumes "r \<in> set (subscriptions db)"
    and "existing_sub_match u dep arr dt tr st bp r"
    and "\<forall>r'\<in>set (subscriptions db).
           existing_sub_match u dep arr dt tr st bp r' \<longrightarrow> s_id r' = s_id r"
  shows "\<exists>new_id db1 db2.
           deactivate_subscription None (s_id r) db = (True, db1) \<and>
           create_subscription None now u dep arr dt tr st bp db1 = Inr (new_id, db2) \<and>
           new_id \<noteq> s_id r \<and>
           new_id \<notin> set (map s_id (subscriptions db)) \<and>
           subscriptions db2 =
             subscriptions db1 @
             [\<lparr>s_id = new_id, s_user_id = u, s_departure_station = dep,
               s_arrival_station = arr, s_departure_date = dt, s_train_number = tr,
               s_seat_type = st, s_berth_position = bp, s_is_active = True,
               s_created_at = now, s_last_checked = None\<rparr>]"
proof -
  let ?db1 = "deactivate_subscription_sql (s_id r) db"
  let ?new = "next_rowid (seq_subscriptions ?db1) (map s_id (subscriptions ?db1))"
  have none: "find (existing_sub_match u dep arr dt tr st bp) (subscriptions ?db1) = None"
    using assms(3) by (rule deactivate_no_match)
  have fresh: "x < ?new" if "x \<in> set (map s_id (subscriptions db))" for x
    using that next_rowid_greater [of x "map s_id (subscriptions ?db1)" "seq_subscriptions ?db1"]
    by (simp add: deactivate_ids)
  have "s_id r \<in> set (map s_id (subscriptions db))" using assms(1) by simp
  then have ne: "?new \<noteq> s_id r" using fresh by fastforce
  have nin: "?new \<notin> set (map s_id (subscriptions db))" using fresh by blast
  have d: "deactivate_subscription None (s_id r) db = (True, ?db1)"
    by (simp add: deactivate_subscription_def)
  have c: "create_subscription None now u dep arr dt tr st bp ?db1 =
             Inr (?new, snd (create_subscription_sql now u dep arr dt tr st bp ?db1))"
    using none by (simp add: create_subscription_def create_subscription_sql_def Let_def)
  have s: "subscriptions (snd (create_subscription_sql now u dep arr dt tr st bp ?db1)) =
             subscriptions ?db1 @
             [\<lparr>s_id = ?new, s_user_id = u, s_departure_station = dep,
               s_arrival_station = arr, s_departure_date = dt, s_train_number = tr,
               s_seat_type = st, s_berth_position = bp, s_is_active = True,
               s_created_at = now, s_last_checked = None\<rparr>]"
    using none by (simp add: create_subscription_sql_def Let_def)
  from d c ne nin s show ?thesis by blast
qed

text \<open>
  On the sample store: after subscription 1 is deactivated, creating it again returns 2.
\<close>

theorem create_after_deactivation_witness:
  "hd (subscriptions sample_db) \<in> set (subscriptions sample_db) \<and>
   existing_sub_match 42 moscow kazan june1 train1 kupe lower_berth (hd (subscriptions sample_db)) \<and>
   filter (existing_sub_match 42 moscow kazan june1 train1 kupe lower_berth)
      (subscriptions sample_db) = [hd (subscriptions sample_db)] \<and>
   s_id (hd (subscriptions sample_db)) = 1 \<and>
   fst (projr (create_subscription None 500 42 moscow kazan june1 train1 kupe lower_berth
                 (snd (deactivate_subscription None 1 sample_db)))) = 2 \<and>
   (\<exists>new_id db1 db2.
      deactivate_subscription None (s_id (hd (subscriptions sample_db))) sample_db = (True, db1) \<and>
      create_subscription None 500 42 moscow kazan june1 train1 kupe lower_berth db1
        = Inr (new_id, db2) \<and>
      new_id \<noteq> s_id (hd (subscriptions sample_db)))"
proof -
  have h1: "hd (subscriptions sample_db) \<in> set (subscriptions sample_db)"
    by code_simp
  have h2: "existing_sub_match 42 moscow kazan june1 train1 kupe lower_berth
              (hd (subscriptions sample_db))"
    by code_simp
  have h3: "\<forall>r'\<in>set (subscriptions sample_db).
      existing_sub_match 42 moscow kazan june1 train1 kupe lower_berth r' \<longrightarrow>
      s_id r' = s_id (hd (subscriptions sample_db))"
    by code_simp
  have h4: "filter (existing_sub_match 42 moscow kazan june1 train1 kupe lower_berth)
      (subscriptions sample_db) = [hd (subscriptions sample_db)]"
    by code_simp
  have v1: "s_id (hd (subscriptions sample_db)) = 1"
    by code_simp
  have v2: "fst (projr (create_subscription None 500 42 moscow kazan june1 train1 kupe lower_berth
                 (snd (deactivate_subscription None 1 sample_db)))) = 2"
    by code_simp
  from create_after_deactivation [OF h1 h2 h3, of 500] h1 h2 h4 v1 v2
  show ?thesis by blast
qed

subsection \<open>Checks\<close>

text \<open>
  C4. While the store works and keeps its keys (subscription identifiers and the users'
  Telegram identifiers are distinct), a cycle probes each listed subscription exactly
  once, and records exactly one history entry, with the availability it answered and no
  other entry for it, for each subscription whose probe returns. Nothing is assumed about the other
  subscriptions: the parser may raise for any of them.
\<close>

theorem check_all_isolation:
  assumes "\<forall>c. store_fault env c = None"
    and "distinct (map s_id (subscriptions (store w)))"
    and "distinct (map u_telegram_id (users (store w)))"
    and "s \<in> set (get_active_subscriptions_sql (store w))"
  shows "count_list (probes (check_all_subscriptions env w)) (a_id s) =
           count_list (probes w) (a_id s) + 1 \<and>
         (\<forall>info. probe env s = Inr info \<longrightarrow>
            count_list (history_entries (check_all_subscriptions env w))
                (a_id s, dict_get info ''available'' (PyBool False)) =
            count_list (history_entries w)
                (a_id s, dict_get info ''available'' (PyBool False)) + 1 \<and>
            count_list (map fst (history_entries (check_all_subscriptions env w))) (a_id s) =
            count_list (map fst (history_entries w)) (a_id s) + 1)"
proof -
  let ?L = "get_active_subscriptions_sql (store w)"
  from assms(1) have ok: "\<And>c. store_fault env c = None" by simp
  have d: "distinct (map a_id (get_active_subscriptions_sql (store w)))"
    using assms(2,3) by (rule listing_distinct)
  note eff = check_all_effect [OF ok d]
  have "count_list (map a_id ?L) (a_id s) = 1"
    using d assms(4) by (intro count_list_distinct_member) auto
  then have A: "count_list (probes (check_all_subscriptions env w)) (a_id s) =
           count_list (probes w) (a_id s) + 1"
    by (simp add: eff(4))
  have B: "count_list (history_entries (check_all_subscriptions env w))
                (a_id s, dict_get info ''available'' (PyBool False)) =
            count_list (history_entries w)
                (a_id s, dict_get info ''available'' (PyBool False)) + 1"
    if p: "probe env s = Inr info" for info
  proof -
    have "count_list (concat (map (history_of_probe env) ?L))
            (a_id s, dict_get info ''available'' (PyBool False)) =
          count_list (history_of_probe env s) (a_id s, dict_get info ''available'' (PyBool False))"
      by (rule count_concat_distinct [where k = a_id and key = fst, OF d assms(4)])
         (auto simp: history_of_probe_def split: sum.splits)
    also have "\<dots> = 1" using p by (simp add: history_of_probe_def)
    finally show ?thesis by (simp add: eff(2))
  qed
  have C: "count_list (map fst (history_entries (check_all_subscriptions env w))) (a_id s) =
            count_list (map fst (history_entries w)) (a_id s) + 1"
    if p: "probe env s = Inr info" for info
  proof -
    have "count_list (concat (map (\<lambda>t. map fst (history_of_probe env t)) ?L)) (a_id s) =
            count_list (map fst (history_of_probe env s)) (a_id s)"
      by (rule count_concat_distinct [where k = a_id and key = "\<lambda>x. x", OF d assms(4)])
         (auto simp: history_of_probe_def split: sum.splits)
    also have "\<dots> = 1" using p by (simp add: history_of_probe_def)
    finally show ?thesis by (simp add: eff(2) map_concat comp_def)
  qed
  from A B C show ?thesis by blast
qed

text \<open>
  Three subscriptions, listed newest first; the parser raises for the second one (train
  002A). All three are probed, and the first and the third get their history entry.
\<close>

theorem check_all_isolation_witness:
  "distinct (map s_id (subscriptions (store three_world))) \<and>
   distinct (map u_telegram_id (users (store three_world))) \<and>
   sample_subscription \<in> set (get_active_subscriptions_sql (store three_world)) \<and>
   probe raising_env sample_subscription = Inr [(''available'', PyBool False)] \<and>
   count_list (probes (check_all_subscriptions raising_env three_world)) (a_id sample_subscription) =
     count_list (probes three_world) (a_id sample_subscription) + 1 \<and>
   count_list (history_entries (check_all_subscriptions raising_env three_world))
       (a_id sample_subscription,
        dict_get [(''available'', PyBool False)] ''available'' (PyBool False)) =
     count_list (history_entries three_world)
       (a_id sample_subscription,
        dict_get [(''available'', PyBool False)] ''available'' (PyBool False)) + 1 \<and>
   count_list (map fst (history_entries (check_all_subscriptions raising_env three_world)))
       (a_id sample_subscription) =
     count_list (map fst (history_entries three_world)) (a_id sample_subscription) + 1 \<and>
   probes (check_all_subscriptions raising_env three_world) = [3, 2, 1] \<and>
   history_entries (check_all_subscriptions raising_env three_world)
     = [(3, PyBool False), (1, PyBool False)]"
proof -
  have h0: "\<forall>c. store_fault raising_env c = None"
    by (simp add: raising_env_def)
  have h1: "distinct (map s_id (subscriptions (store three_world)))"
    by code_simp
  have k1: "distinct (map u_telegram_id (users (store three_world)))"
    by code_simp
  have h2: "sample_subscription \<in> set (get_active_subscriptions_sql (store three_world))"
    by code_simp
  have h3: "probe raising_env sample_subscription = Inr [(''available'', PyBool False)]"
    by code_simp
  have v1: "probes (check_all_subscriptions raising_env three_world) = [3, 2, 1]"
    by code_simp
  have v2: "history_entries (check_all_subscriptions raising_env three_world)
     = [(3, PyBool False), (1, PyBool False)]"
    by code_simp
  from check_all_isolation [OF h0 h1 k1 h2] h1 k1 h2 h3 v1 v2
  show ?thesis by blast
qed

text \<open>
  C5, as the code has it. In a check whose subscription is listed and whose probe returns,
  the calls are made in this order: the active subscriptions are read, the parser is asked,
  the last-checked time is updated, the history entry is recorded, and then, only for an
  available answer, the notification is sent and, once delivered, saved. The update of the
  last-checked time comes before the history entry.
\<close>

theorem check_subscription_call_order:
  assumes "find (\<lambda>s. a_id s = j)
             (get_active_subscriptions (store_fault env Call_get_active_subscriptions) (store w))
           = Some a"
    and "parser env (a_train_number a) (a_departure_station a) (a_arrival_station a)
           (a_departure_date a) (a_seat_type a) (a_berth_position a) = Inr info"
  shows "calls (check_subscription env j w) =
           calls w @
           [Call_get_active_subscriptions, Call_check_seat_availability j,
            Call_update_last_checked j,
            Call_add_check_history j (dict_get info ''available'' (PyBool False))] @
           (if truthy (dict_get info ''available'' (PyBool False))
            then notify_calls env a info else [])"
proof -
  have "probe env a = Inr info" using assms(2) by (simp add: probe_def)
  from check_subscription_returned [OF assms(1) this] show ?thesis
    by (simp add: Let_def send_notification_calls)
qed

text \<open>The calls of one check of the sample subscription with an available answer.\<close>

theorem check_subscription_call_order_witness:
  "find (\<lambda>s. a_id s = 1)
     (get_active_subscriptions (store_fault (verdict_env True) Call_get_active_subscriptions)
        (store sample_world)) = Some sample_subscription \<and>
   parser (verdict_env True) (a_train_number sample_subscription)
     (a_departure_station sample_subscription) (a_arrival_station sample_subscription)
     (a_departure_date sample_subscription) (a_seat_type sample_subscription)
     (a_berth_position sample_subscription) = Inr [(''available'', PyBool True)] \<and>
   calls (check_subscription (verdict_env True) 1 sample_world) =
     [Call_get_active_subscriptions, Call_check_seat_availability 1,
      Call_update_last_checked 1, Call_add_check_history 1 (PyBool True),
      Call_send_message 42, Call_add_notification 1]"
proof -
  have h1: "find (\<lambda>s. a_id s = 1)
     (get_active_subscriptions (store_fault (verdict_env True) Call_get_active_subscriptions)
        (store sample_world)) = Some sample_subscription"
    by code_simp
  have h2: "parser (verdict_env True) (a_train_number sample_subscription)
     (a_departure_station sample_subscription) (a_arrival_station sample_subscription)
     (a_departure_date sample_subscription) (a_seat_type sample_subscription)
     (a_berth_position sample_subscription) = Inr [(''available'', PyBool True)]"
    by (simp add: verdict_env_def)
  have c0: "calls sample_world = []"
    by (simp add: sample_world_def)
  have nc: "notify_calls (verdict_env True) sample_subscription [(''available'', PyBool True)]
              = [Call_send_message 42, Call_add_notification 1]"
    by (simp add: notify_calls_def verdict_env_def sample_subscription_def)
  from check_subscription_call_order [OF h1 h2] c0 nc
  have "calls (check_subscription (verdict_env True) 1 sample_world) =
     [Call_get_active_subscriptions, Call_check_seat_availability 1,
      Call_update_last_checked 1, Call_add_check_history 1 (PyBool True),
      Call_send_message 42, Call_add_notification 1]"
    by (simp add: dict_get_def)
  with h1 h2 show ?thesis by blast
qed

text \<open>
  C5, as stated, fails on the sample subscription: the history entry is not recorded
  before the last-checked time is updated, but after it.
\<close>

theorem history_before_last_checked_counterexample:
  "\<not> precedes (Call_add_check_history 1 (PyBool True)) (Call_update_last_checked 1)
       (calls (check_subscription (verdict_env True) 1 sample_world)) \<and>
   precedes (Call_update_last_checked 1) (Call_add_check_history 1 (PyBool True))
       (calls (check_subscription (verdict_env True) 1 sample_world))"
  by code_simp

text \<open>
  C6. When the parser raises for a listed subscription, the exception is caught by the
  handler of the check: the store is left as it was (no last-checked update, no history
  entry, no notification), nothing is sent, and the parser has been asked once.
\<close>

theorem check_subscription_source_failure:
  assumes "find (\<lambda>s. a_id s = j)
             (get_active_subscriptions (store_fault env Call_get_active_subscriptions) (store w))
           = Some a"
    and "parser env (a_train_number a) (a_departure_station a) (a_arrival_station a)
           (a_departure_date a) (a_seat_type a) (a_berth_position a) = Inl e"
  shows "fst (check_subscription_try env j w) = Some e \<and>
         store (check_subscription env j w) = store w \<and>
         telegram (check_subscription env j w) = telegram w \<and>
         calls (check_subscription env j w) =
           calls w @ [Call_get_active_subscriptions, Call_check_seat_availability j]"
proof -
  have "probe env a = Inl e" using assms(2) by (simp add: probe_def)
  from check_subscription_raised [OF assms(1) this] show ?thesis
    by (simp add: check_subscription_def)
qed

text \<open>The second of the three subscriptions, for which the parser raises.\<close>

theorem check_subscription_source_failure_witness:
  "find (\<lambda>s. a_id s = 2)
     (get_active_subscriptions (store_fault raising_env Call_get_active_subscriptions)
        (store three_world))
     = Some (hd (tl (get_active_subscriptions_sql (store three_world)))) \<and>
   parser raising_env (a_train_number (hd (tl (get_active_subscriptions_sql (store three_world)))))
     (a_departure_station (hd (tl (get_active_subscriptions_sql (store three_world)))))
     (a_arrival_station (hd (tl (get_active_subscriptions_sql (store three_world)))))
     (a_departure_date (hd (tl (get_active_subscriptions_sql (store three_world)))))
     (a_seat_type (hd (tl (get_active_subscriptions_sql (store three_world)))))
     (a_berth_position (hd (tl (get_active_subscriptions_sql (store three_world)))))
     = Inl (Exception (ascii ''timeout'')) \<and>
   store (check_subscription raising_env 2 three_world) = store three_world \<and>
   telegram (check_subscription raising_env 2 three_world) = telegram three_world \<and>
   calls (check_subscription raising_env 2 three_world) =
     calls three_world @ [Call_get_active_subscriptions, Call_check_seat_availability 2]"
proof -
  have h1: "find (\<lambda>s. a_id s = 2)
     (get_active_subscriptions (store_fault raising_env Call_get_active_subscriptions)
        (store three_world))
     = Some (hd (tl (get_active_subscriptions_sql (store three_world))))"
    by code_simp
  have h2: "parser raising_env (a_train_number (hd (tl (get_active_subscriptions_sql (store three_world)))))
     (a_departure_station (hd (tl (get_active_subscriptions_sql (store three_world)))))
     (a_arrival_station (hd (tl (get_active_subscriptions_sql (store three_world)))))
     (a_departure_date (hd (tl (get_active_subscriptions_sql (store three_world)))))
     (a_seat_type (hd (tl (get_active_subscriptions_sql (store three_world)))))
     (a_berth_position (hd (tl (get_active_subscriptions_sql (store three_world)))))
     = Inl (Exception (ascii ''timeout''))"
    by code_simp
  from check_subscription_source_failure [OF h1 h2] h1 h2
  show ?thesis by blast
qed

subsection \<open>Check interval\<close>

text \<open>
  C3. Reconfiguring the check interval clamps a request below the 60-second floor to
  exactly 60 and stores a request of 60 or more unchanged; a request of 10 seconds gives an
  effective interval of 60 seconds. No other attribute of the service changes.
\<close>

theorem update_check_interval_floor:
  "(interval < 60 \<longrightarrow> check_interval (update_check_interval interval svc) = 60) \<and>
   (60 \<le> interval \<longrightarrow> check_interval (update_check_interval interval svc) = interval) \<and>
   check_interval (update_check_interval 10 svc) = 60 \<and>
   is_running (update_check_interval interval svc) = is_running svc \<and>
   retry_delay (update_check_interval interval svc) = retry_delay svc \<and>
   max_retries (update_check_interval interval svc) = max_retries svc"
  by (simp add: update_check_interval_def)

text \<open>A request of 10 and a request of 900 on the service as it is created.\<close>

theorem update_check_interval_floor_witness:
  "(10::int) < 60 \<and> check_interval (update_check_interval 10 init_service) = 60 \<and>
   (60::int) \<le> 900 \<and> check_interval (update_check_interval 900 init_service) = 900"
  using update_check_interval_floor [of 10 init_service]
        update_check_interval_floor [of 900 init_service]
  by simp

subsection \<open>Housekeeping\<close>

text \<open>
  C7. The pass reads the subscriptions through \<open>get_active_subscriptions\<close>, whose query
  joins the users table, so it never sees a subscription whose owner has no row there.
  \<open>create_subscription\<close> on an empty store, for user 42 and departure 2025-06-01, gives
  such a subscription. On 2025-06-15 it is active and its date is past, the store lists
  nothing, and the pass leaves the subscriptions as they were: it is still active. The
  comment of the loop and \<open>cleanup_old_data\<close>, whose update reaches every row with a
  past date, ask for its deactivation, as the claim does.
\<close>

theorem cleanup_old_subscriptions_skips_unregistered:
  "create_subscription None 200 42 moscow kazan june1 train1 kupe lower_berth empty_db
     = Inr (1, unregistered_db) \<and>
   users (store unregistered_world) = [] \<and>
   map s_id (subscriptions (store unregistered_world)) = [1] \<and>
   map s_is_active (subscriptions (store unregistered_world)) = [True] \<and>
   map s_departure_date (subscriptions (store unregistered_world)) = [june1] \<and>
   past_departure fullwidth_decimal (2025, 6, 15) june1 \<and>
   get_active_subscriptions_sql (store unregistered_world) = [] \<and>
   subscriptions (store (cleanup_old_subscriptions fullwidth_decimal no_fault (2025, 6, 15)
                           unregistered_world))
     = subscriptions (store unregistered_world) \<and>
   map s_is_active
     (subscriptions (store (cleanup_old_subscriptions fullwidth_decimal no_fault (2025, 6, 15)
                              unregistered_world))) = [True]"
  by code_simp

text \<open>
  The loop also ends at the first listed date that does not parse, the exception being
  caught around the whole loop. With a registered owner, the subscription for 2025-06-01
  and a newer one whose date is written 01.06.2025, the newer one is listed first, and on
  2025-06-15 both are still active after the pass.
\<close>

lemma cleanup_old_subscriptions_stops_at_unparsed_date:
  "map a_id (get_active_subscriptions_sql (store dotted_world)) = [2, 1] \<and>
   map a_departure_date (get_active_subscriptions_sql (store dotted_world))
     = [dotted_june1, june1] \<and>
   isl (strptime_ymd fullwidth_decimal dotted_june1) \<and>
   past_departure fullwidth_decimal (2025, 6, 15) june1 \<and>
   map s_is_active
     (subscriptions (store (cleanup_old_subscriptions fullwidth_decimal no_fault (2025, 6, 15)
                              dotted_world))) = [True, True]"
  by code_simp

text \<open>
  What the pass does for the subscriptions it reads. Take a store that works, whose
  subscription identifiers are distinct (the primary key) and in which the departure
  date of every listed subscription parses, and in it an active subscription of a
  registered user. If its departure date is before today, the pass sets it inactive and
  keeps the row, and the store no longer lists it; if not, the row is unchanged and stays
  listed. No row is deleted.
\<close>

lemma cleanup_old_subscriptions_listed:
  assumes ok: "\<forall>c. fault c = None"
    and pk: "distinct (map s_id (subscriptions (store w)))"
    and parse: "\<forall>a\<in>set (get_active_subscriptions_sql (store w)).
                  \<exists>d. strptime_ymd unicode_decimal (a_departure_date a) = Inr d"
    and r: "r \<in> set (subscriptions (store w))" "s_is_active r"
    and u: "u \<in> set (users (store w))" "s_user_id r = u_telegram_id u"
  shows "(past_departure unicode_decimal today (s_departure_date r) \<longrightarrow>
            r\<lparr>s_is_active := False\<rparr>
              \<in> set (subscriptions (store (cleanup_old_subscriptions unicode_decimal fault today w))) \<and>
            s_id r \<notin> a_id ` set (get_active_subscriptions_sql
                                   (store (cleanup_old_subscriptions unicode_decimal fault today w)))) \<and>
         (\<not> past_departure unicode_decimal today (s_departure_date r) \<longrightarrow>
            r \<in> set (subscriptions (store (cleanup_old_subscriptions unicode_decimal fault today w))) \<and>
            row_dict (r, u) \<in> set (get_active_subscriptions_sql
                                     (store (cleanup_old_subscriptions unicode_decimal fault today w)))) \<and>
         length (subscriptions (store (cleanup_old_subscriptions unicode_decimal fault today w))) =
           length (subscriptions (store w))"
proof -
  let ?L = "get_active_subscriptions_sql (store w)"
  let ?D = "map a_id (filter (\<lambda>t. past_departure unicode_decimal today (a_departure_date t)) ?L)"
  let ?w' = "cleanup_old_subscriptions unicode_decimal fault today w"
  from ok have ok': "\<And>c. fault c = None" by simp
  have g: "get_active_subscriptions (fault Call_get_active_subscriptions) (store w) = ?L"
    by (simp add: get_active_subscriptions_def ok')
  have cl: "store (snd (cleanup_loop unicode_decimal fault today ?L (logged Call_get_active_subscriptions w))) =
        fold deactivate_subscription_sql ?D (store (logged Call_get_active_subscriptions w))"
    using cleanup_loop_all_parse [OF ok' parse, where today = today
            and w = "logged Call_get_active_subscriptions w"]
    by (rule conjunct2)
  have st: "store ?w' = fold deactivate_subscription_sql ?D (store w)"
    unfolding cleanup_old_subscriptions_def Let_def g cl
    by (simp add: logged_def)
  have listed: "row_dict (r, u) \<in> set ?L"
    using r u by (auto simp: set_get_active set_active_join)
  have key: "s_id r \<in> set ?D \<longleftrightarrow> past_departure unicode_decimal today (s_departure_date r)"
  proof
    assume "s_id r \<in> set ?D"
    then obtain t where t: "t \<in> set ?L" "past_departure unicode_decimal today (a_departure_date t)"
      "a_id t = s_id r" by auto
    from t(1) obtain r' u' where ru: "t = row_dict (r', u')" "r' \<in> set (subscriptions (store w))"
      by (auto simp: set_get_active set_active_join)
    with t(3) have "s_id r' = s_id r" by (simp add: row_dict_fields)
    moreover from pk have "inj_on s_id (set (subscriptions (store w)))"
      by (simp add: distinct_map)
    ultimately have "r' = r" using ru(2) r(1) by (auto dest: inj_onD)
    with ru(1) t(2) show "past_departure unicode_decimal today (s_departure_date r)"
      by (simp add: row_dict_fields)
  next
    assume "past_departure unicode_decimal today (s_departure_date r)"
    then have "past_departure unicode_decimal today (a_departure_date (row_dict (r, u)))"
      by (simp add: row_dict_fields)
    with listed have "a_id (row_dict (r, u)) \<in> set ?D" by auto
    then show "s_id r \<in> set ?D" by (simp add: row_dict_fields)
  qed
  have subs: "subscriptions (store ?w') =
      map (\<lambda>x. if s_id x \<in> set ?D then x\<lparr>s_is_active := False\<rparr> else x) (subscriptions (store w))"
    by (simp only: st fold_deactivate_subscriptions)
  have lst: "get_active_subscriptions_sql (store ?w') = filter (\<lambda>a. a_id a \<notin> set ?D) ?L"
    by (simp only: st fold_deactivate_listing)
  have A: "r\<lparr>s_is_active := False\<rparr> \<in> set (subscriptions (store ?w')) \<and>
           s_id r \<notin> a_id ` set (get_active_subscriptions_sql (store ?w'))"
    if p: "past_departure unicode_decimal today (s_departure_date r)"
  proof
    from p key have d: "s_id r \<in> set ?D" by simp
    have "(\<lambda>x. if s_id x \<in> set ?D then x\<lparr>s_is_active := False\<rparr> else x) r
            \<in> set (subscriptions (store ?w'))"
      unfolding subs using r(1) by (simp only: set_map) (rule imageI)
    with d show "r\<lparr>s_is_active := False\<rparr> \<in> set (subscriptions (store ?w'))" by simp
    from d show "s_id r \<notin> a_id ` set (get_active_subscriptions_sql (store ?w'))"
      unfolding lst by auto
  qed
  have B: "r \<in> set (subscriptions (store ?w')) \<and>
           row_dict (r, u) \<in> set (get_active_subscriptions_sql (store ?w'))"
    if p: "\<not> past_departure unicode_decimal today (s_departure_date r)"
  proof
    from p key have d: "s_id r \<notin> set ?D" by simp
    have "(\<lambda>x. if s_id x \<in> set ?D then x\<lparr>s_is_active := False\<rparr> else x) r
            \<in> set (subscriptions (store ?w'))"
      unfolding subs using r(1) by (simp only: set_map) (rule imageI)
    with d show "r \<in> set (subscriptions (store ?w'))" by simp
    from d have "a_id (row_dict (r, u)) \<notin> set ?D" by (simp add: row_dict_fields)
    with listed show "row_dict (r, u) \<in> set (get_active_subscriptions_sql (store ?w'))"
      unfolding lst by simp
  qed
  have C: "length (subscriptions (store ?w')) = length (subscriptions (store w))"
    by (simp add: subs)
  from A B C show ?thesis by blast
qed

text \<open>
  On 2025-06-15 the subscription for 2025-06-01 is deactivated and the one for 2025-07-01
  stays: afterwards the store lists subscription 2 only.
\<close>

lemma cleanup_old_subscriptions_listed_example:
  "distinct (map s_id (subscriptions (store dates_world))) \<and>
   map s_is_active (subscriptions (store dates_world)) = [True, True] \<and>
   map s_departure_date (subscriptions (store dates_world)) = [june1, july1] \<and>
   past_departure fullwidth_decimal (2025, 6, 15) june1 \<and>
   \<not> past_departure fullwidth_decimal (2025, 6, 15) july1 \<and>
   (hd (subscriptions (store dates_world)))\<lparr>s_is_active := False\<rparr>
      \<in> set (subscriptions (store (cleanup_old_subscriptions fullwidth_decimal no_fault
                                      (2025, 6, 15) dates_world))) \<and>
   hd (tl (subscriptions (store dates_world)))
      \<in> set (subscriptions (store (cleanup_old_subscriptions fullwidth_decimal no_fault
                                      (2025, 6, 15) dates_world))) \<and>
   map a_id (get_active_subscriptions_sql
               (store (cleanup_old_subscriptions fullwidth_decimal no_fault
                         (2025, 6, 15) dates_world))) = [2]"
proof -
  let ?r1 = "hd (subscriptions (store dates_world))"
  let ?r2 = "hd (tl (subscriptions (store dates_world)))"
  let ?u = "hd (users (store dates_world))"
  let ?w' = "cleanup_old_subscriptions fullwidth_decimal no_fault (2025, 6, 15) dates_world"
  have ok: "\<forall>c. no_fault c = None"
    by (simp add: no_fault_def)
  have pk: "distinct (map s_id (subscriptions (store dates_world)))"
    by code_simp
  have parse: "\<forall>a\<in>set (get_active_subscriptions_sql (store dates_world)).
                 \<exists>d. strptime_ymd fullwidth_decimal (a_departure_date a) = Inr d"
  proof
    fix a
    assume a: "a \<in> set (get_active_subscriptions_sql (store dates_world))"
    have "list_all (\<lambda>a. \<not> isl (strptime_ymd fullwidth_decimal (a_departure_date a)))
            (get_active_subscriptions_sql (store dates_world))"
      by code_simp
    with a have "\<not> isl (strptime_ymd fullwidth_decimal (a_departure_date a))"
      by (simp add: list_all_iff)
    then show "\<exists>d. strptime_ymd fullwidth_decimal (a_departure_date a) = Inr d"
      by (cases "strptime_ymd fullwidth_decimal (a_departure_date a)") auto
  qed
  have r1: "?r1 \<in> set (subscriptions (store dates_world))" by code_simp
  have r2: "?r2 \<in> set (subscriptions (store dates_world))" by code_simp
  have a1: "s_is_active ?r1" by code_simp
  have a2: "s_is_active ?r2" by code_simp
  have u: "?u \<in> set (users (store dates_world))" by code_simp
  have m1: "s_user_id ?r1 = u_telegram_id ?u" by code_simp
  have m2: "s_user_id ?r2 = u_telegram_id ?u" by code_simp
  have d1: "s_departure_date ?r1 = june1" by code_simp
  have d2: "s_departure_date ?r2 = july1" by code_simp
  have p1: "past_departure fullwidth_decimal (2025, 6, 15) june1" by code_simp
  have p2: "\<not> past_departure fullwidth_decimal (2025, 6, 15) july1" by code_simp
  have s1: "map s_is_active (subscriptions (store dates_world)) = [True, True]" by code_simp
  have s2: "map s_departure_date (subscriptions (store dates_world)) = [june1, july1]"
    by code_simp
  have v: "map a_id (get_active_subscriptions_sql (store ?w')) = [2]"
    by code_simp
  from cleanup_old_subscriptions_listed [OF ok pk parse r1 a1 u m1, where today = "(2025, 6, 15)"]
    p1 d1
  have c1: "?r1\<lparr>s_is_active := False\<rparr> \<in> set (subscriptions (store ?w'))" by simp
  from cleanup_old_subscriptions_listed [OF ok pk parse r2 a2 u m2, where today = "(2025, 6, 15)"]
    p2 d2
  have c2: "?r2 \<in> set (subscriptions (store ?w'))" by simp
  from pk s1 s2 p1 p2 c1 c2 v show ?thesis by blast
qed

subsection \<open>Notification text\<close>

text \<open>
  C8. The message is a function of the subscription, the answer of the parser and the
  formatted time. It is the title, the lines for train, route, date and seat class, then
  the berth line exactly when the berth is not "any", then the price, car and seat lines,
  each exactly when the answer holds a value for it (one that is neither \<open>None\<close> nor
  empty, which is what \<open>availability_info.get\<close> is tested for), then the time and the
  booking link. So each of these lines occurs in the message under its condition, and
  two messages for the same subscription and answer differ in the time only.
\<close>

theorem format_notification_message_contents:
  "format_notification_message t s info =
     msg_title @
     msg_train @ a_train_number s @ nl @
     msg_route @ a_departure_station s @ msg_arrow @ a_arrival_station s @ nl @
     msg_date @ a_departure_date s @ nl @
     msg_seat_type @ a_seat_type s @ nl @
     (if a_berth_position s \<noteq> any_berth then msg_berth @ a_berth_position s @ nl else []) @
     (if truthy (dict_get info ''price'' PyNone)
      then msg_price @ py_str (dict_get info ''price'' PyNone) @ nl else []) @
     (if truthy (dict_get info ''car_number'' PyNone)
      then msg_car @ py_str (dict_get info ''car_number'' PyNone) @ nl else []) @
     (if truthy (dict_get info ''seat_number'' PyNone)
      then msg_seat @ py_str (dict_get info ''seat_number'' PyNone) @ nl else []) @
     msg_time @ t @ msg_link \<and>
   sublist (msg_train @ a_train_number s @ nl) (format_notification_message t s info) \<and>
   sublist (msg_route @ a_departure_station s @ msg_arrow @ a_arrival_station s @ nl)
     (format_notification_message t s info) \<and>
   sublist (msg_date @ a_departure_date s @ nl) (format_notification_message t s info) \<and>
   sublist (msg_seat_type @ a_seat_type s @ nl) (format_notification_message t s info) \<and>
   (a_berth_position s \<noteq> any_berth \<longrightarrow>
      sublist (msg_berth @ a_berth_position s @ nl) (format_notification_message t s info)) \<and>
   (truthy (dict_get info ''price'' PyNone) \<longrightarrow>
      sublist (msg_price @ py_str (dict_get info ''price'' PyNone) @ nl)
        (format_notification_message t s info)) \<and>
   (truthy (dict_get info ''car_number'' PyNone) \<longrightarrow>
      sublist (msg_car @ py_str (dict_get info ''car_number'' PyNone) @ nl)
        (format_notification_message t s info)) \<and>
   (truthy (dict_get info ''seat_number'' PyNone) \<longrightarrow>
      sublist (msg_seat @ py_str (dict_get info ''seat_number'' PyNone) @ nl)
        (format_notification_message t s info)) \<and>
   (\<exists>before after. \<forall>t'. format_notification_message t' s info = before @ t' @ after)"
proof -
  let ?m = "format_notification_message t s info"
  let ?B = "if a_berth_position s \<noteq> any_berth then msg_berth @ a_berth_position s @ nl else []"
  let ?P = "if truthy (dict_get info ''price'' PyNone)
      then msg_price @ py_str (dict_get info ''price'' PyNone) @ nl else []"
  let ?C = "if truthy (dict_get info ''car_number'' PyNone)
      then msg_car @ py_str (dict_get info ''car_number'' PyNone) @ nl else []"
  let ?S = "if truthy (dict_get info ''seat_number'' PyNone)
      then msg_seat @ py_str (dict_get info ''seat_number'' PyNone) @ nl else []"
  let ?T = "msg_train @ a_train_number s @ nl"
  let ?R = "msg_route @ a_departure_station s @ msg_arrow @ a_arrival_station s @ nl"
  let ?D = "msg_date @ a_departure_date s @ nl"
  let ?K = "msg_seat_type @ a_seat_type s @ nl"
  have closed: "?m = msg_title @ ?T @ ?R @ ?D @ ?K @ ?B @ ?P @ ?C @ ?S @ msg_time @ t @ msg_link"
    by (simp add: format_notification_message_closed)
  have c1: "sublist ?T ?m"
    by (rule sublist_between [where ps = msg_title
          and ss = "?R @ ?D @ ?K @ ?B @ ?P @ ?C @ ?S @ msg_time @ t @ msg_link"])
       (simp add: closed)
  have c2: "sublist ?R ?m"
    by (rule sublist_between [where ps = "msg_title @ ?T"
          and ss = "?D @ ?K @ ?B @ ?P @ ?C @ ?S @ msg_time @ t @ msg_link"])
       (simp add: closed)
  have c3: "sublist ?D ?m"
    by (rule sublist_between [where ps = "msg_title @ ?T @ ?R"
          and ss = "?K @ ?B @ ?P @ ?C @ ?S @ msg_time @ t @ msg_link"])
       (simp add: closed)
  have c4: "sublist ?K ?m"
    by (rule sublist_between [where ps = "msg_title @ ?T @ ?R @ ?D"
          and ss = "?B @ ?P @ ?C @ ?S @ msg_time @ t @ msg_link"])
       (simp add: closed)
  have c5: "sublist ?B ?m"
    by (rule sublist_between [where ps = "msg_title @ ?T @ ?R @ ?D @ ?K"
          and ss = "?P @ ?C @ ?S @ msg_time @ t @ msg_link"])
       (simp add: closed)
  have c6: "sublist ?P ?m"
    by (rule sublist_between [where ps = "msg_title @ ?T @ ?R @ ?D @ ?K @ ?B"
          and ss = "?C @ ?S @ msg_time @ t @ msg_link"])
       (simp add: closed)
  have c7: "sublist ?C ?m"
    by (rule sublist_between [where ps = "msg_title @ ?T @ ?R @ ?D @ ?K @ ?B @ ?P"
          and ss = "?S @ msg_time @ t @ msg_link"])
       (simp add: closed)
  have c8: "sublist ?S ?m"
    by (rule sublist_between [where ps = "msg_title @ ?T @ ?R @ ?D @ ?K @ ?B @ ?P @ ?C"
          and ss = "msg_time @ t @ msg_link"])
       (simp add: closed)
  have c9: "\<exists>before after. \<forall>t'. format_notification_message t' s info = before @ t' @ after"
  proof (intro exI allI)
    fix t'
    show "format_notification_message t' s info =
            (msg_title @ ?T @ ?R @ ?D @ ?K @ ?B @ ?P @ ?C @ ?S @ msg_time) @ t' @ msg_link"
      by (simp add: format_notification_message_closed)
  qed
  have b5: "sublist (msg_berth @ a_berth_position s @ nl) ?m" if "a_berth_position s \<noteq> any_berth"
    using c5 that by simp
  have b6: "sublist (msg_price @ py_str (dict_get info ''price'' PyNone) @ nl) ?m"
    if "truthy (dict_get info ''price'' PyNone)"
    using c6 that by simp
  have b7: "sublist (msg_car @ py_str (dict_get info ''car_number'' PyNone) @ nl) ?m"
    if "truthy (dict_get info ''car_number'' PyNone)"
    using c7 that by simp
  have b8: "sublist (msg_seat @ py_str (dict_get info ''seat_number'' PyNone) @ nl) ?m"
    if "truthy (dict_get info ''seat_number'' PyNone)"
    using c8 that by simp
  from format_notification_message_closed [of t s info] c1 c2 c3 c4 b5 b6 b7 b8 c9
  show ?thesis by blast
qed

text \<open>
  The sample subscription asks for the lower berth, and the sample answer has a price, a
  car and a seat: all four lines are in the message.
\<close>

theorem format_notification_message_contents_witness:
  "a_berth_position sample_subscription \<noteq> any_berth \<and>
   truthy (dict_get sample_info ''price'' PyNone) \<and>
   truthy (dict_get sample_info ''car_number'' PyNone) \<and>
   truthy (dict_get sample_info ''seat_number'' PyNone) \<and>
   sublist (msg_berth @ a_berth_position sample_subscription @ nl)
     (format_notification_message (ascii ''01.05.2025 12:00'') sample_subscription sample_info) \<and>
   sublist (msg_price @ py_str (dict_get sample_info ''price'' PyNone) @ nl)
     (format_notification_message (ascii ''01.05.2025 12:00'') sample_subscription sample_info) \<and>
   sublist (msg_car @ py_str (dict_get sample_info ''car_number'' PyNone) @ nl)
     (format_notification_message (ascii ''01.05.2025 12:00'') sample_subscription sample_info) \<and>
   sublist (msg_seat @ py_str (dict_get sample_info ''seat_number'' PyNone) @ nl)
     (format_notification_message (ascii ''01.05.2025 12:00'') sample_subscription sample_info) \<and>
   py_str (dict_get sample_info ''price'' PyNone) = ascii ''3200''"
proof -
  have h1: "a_berth_position sample_subscription \<noteq> any_berth" by code_simp
  have h2: "truthy (dict_get sample_info ''price'' PyNone)" by code_simp
  have h3: "truthy (dict_get sample_info ''car_number'' PyNone)" by code_simp
  have h4: "truthy (dict_get sample_info ''seat_number'' PyNone)" by code_simp
  have v: "py_str (dict_get sample_info ''price'' PyNone) = ascii ''3200''" by code_simp
  from format_notification_message_contents
         [of "ascii ''01.05.2025 12:00''" sample_subscription sample_info] h1 h2 h3 h4 v
  show ?thesis by blast
qed

subsection \<open>The parser at the service's boundary\<close>

text \<open>
  C9. \<open>check_seat_availability\<close> returns a dictionary for every input, and the
  dictionary has the key \<open>available\<close>. When a station code is not found, when the
  request or the reading of the body raises, and when the status is not 200, the answer is
  \<open>available\<close> False with an \<open>error\<close> text; otherwise it is the answer of
  \<open>_parse_seat_availability\<close>, which, like \<open>_check_general_availability\<close>,
  answers an exception of its own in the same way. Called by the service, the parser
  therefore never raises, and a failure counts as not available.
\<close>

theorem check_seat_availability_total:
  "map_of (check_seat_availability P tn dep arr dt st bp) ''available'' \<noteq> None \<and>
   (\<not> str_truthy (get_station_code P dep) \<or> \<not> str_truthy (get_station_code P arr) \<longrightarrow>
      check_seat_availability P tn dep arr dt st bp =
        [(''available'', PyBool False), (''error'', PyStr err_station)]) \<and>
   (str_truthy (get_station_code P dep) \<and> str_truthy (get_station_code P arr) \<longrightarrow>
      (\<forall>e. http_get P check_url
             (check_params (the (get_station_code P dep)) (the (get_station_code P arr)) dt tn)
               = Inl e \<longrightarrow>
           check_seat_availability P tn dep arr dt st bp =
             [(''available'', PyBool False), (''error'', PyStr (exn_str e))]) \<and>
      (\<forall>response. http_get P check_url
             (check_params (the (get_station_code P dep)) (the (get_station_code P arr)) dt tn)
               = Inr response \<longrightarrow>
           (response_status response \<noteq> 200 \<longrightarrow>
              check_seat_availability P tn dep arr dt st bp =
                [(''available'', PyBool False),
                 (''error'', PyStr (err_http @ str_of_int (response_status response)))]) \<and>
           (response_status response = 200 \<longrightarrow>
              (\<forall>e. response_text response = Inl e \<longrightarrow>
                 check_seat_availability P tn dep arr dt st bp =
                   [(''available'', PyBool False), (''error'', PyStr (exn_str e))]) \<and>
              (\<forall>html. response_text response = Inr html \<longrightarrow>
                 check_seat_availability P tn dep arr dt st bp =
                   parse_seat_availability P html st bp)))) \<and>
   (\<forall>html e. parse_seat_availability_try P html st bp = Inl e \<longrightarrow>
      parse_seat_availability P html st bp =
        [(''available'', PyBool False), (''error'', PyStr (exn_str e))]) \<and>
   (\<forall>page e. check_general_availability_try P page st bp = Inl e \<longrightarrow>
      failure_result (check_general_availability P page st bp)) \<and>
   (\<forall>env a. parser env = parser_of P \<longrightarrow>
      probe env a =
        Inr (check_seat_availability P (a_train_number a) (a_departure_station a)
               (a_arrival_station a) (a_departure_date a) (a_seat_type a) (a_berth_position a)) \<and>
      (failure_result (check_seat_availability P (a_train_number a) (a_departure_station a)
               (a_arrival_station a) (a_departure_date a) (a_seat_type a) (a_berth_position a)) \<longrightarrow>
       \<not> verdict env a))"
proof -
  let ?R = "check_seat_availability P tn dep arr dt st bp"
  have A: "map_of ?R ''available'' \<noteq> None"
    by (simp add: check_seat_availability_def check_seat_availability_try_def Let_def
          parse_seat_availability_available split: sum.splits if_splits)
  have B: "?R = [(''available'', PyBool False), (''error'', PyStr err_station)]"
    if "\<not> str_truthy (get_station_code P dep) \<or> \<not> str_truthy (get_station_code P arr)"
    using that by (auto simp: check_seat_availability_def check_seat_availability_try_def Let_def)
  have C: "(\<forall>e. http_get P check_url
             (check_params (the (get_station_code P dep)) (the (get_station_code P arr)) dt tn)
               = Inl e \<longrightarrow>
           ?R = [(''available'', PyBool False), (''error'', PyStr (exn_str e))]) \<and>
      (\<forall>response. http_get P check_url
             (check_params (the (get_station_code P dep)) (the (get_station_code P arr)) dt tn)
               = Inr response \<longrightarrow>
           (response_status response \<noteq> 200 \<longrightarrow>
              ?R = [(''available'', PyBool False),
                 (''error'', PyStr (err_http @ str_of_int (response_status response)))]) \<and>
           (response_status response = 200 \<longrightarrow>
              (\<forall>e. response_text response = Inl e \<longrightarrow>
                 ?R = [(''available'', PyBool False), (''error'', PyStr (exn_str e))]) \<and>
              (\<forall>html. response_text response = Inr html \<longrightarrow>
                 ?R = parse_seat_availability P html st bp)))"
    if "str_truthy (get_station_code P dep) \<and> str_truthy (get_station_code P arr)"
    using that by (simp add: check_seat_availability_def check_seat_availability_try_def Let_def)
  have D: "parse_seat_availability P html st bp =
        [(''available'', PyBool False), (''error'', PyStr (exn_str e))]"
    if "parse_seat_availability_try P html st bp = Inl e" for html e
    using that by (simp add: parse_seat_availability_def)
  have E: "failure_result (check_general_availability P page st bp)"
    if "check_general_availability_try P page st bp = Inl e" for page e
    using that by (rule check_general_availability_failure)
  have F: "probe env a =
        Inr (check_seat_availability P (a_train_number a) (a_departure_station a)
               (a_arrival_station a) (a_departure_date a) (a_seat_type a) (a_berth_position a)) \<and>
      (failure_result (check_seat_availability P (a_train_number a) (a_departure_station a)
               (a_arrival_station a) (a_departure_date a) (a_seat_type a) (a_berth_position a)) \<longrightarrow>
       \<not> verdict env a)"
    if "parser env = parser_of P" for env a
    using that failure_result_not_truthy
    by (simp add: probe_def parser_of_def verdict_def)
  from A B C D E F show ?thesis by blast
qed

text \<open>
  On the sample site an unknown station gives the station error, and the known stations,
  with the page answering 503, give the HTTP error.
\<close>

theorem check_seat_availability_total_witness:
  "\<not> str_truthy (get_station_code sample_site (ascii ''nowhere'')) \<and>
   check_seat_availability sample_site train1 (ascii ''nowhere'') (ascii ''kazan'') june1 kupe
       lower_berth
     = [(''available'', PyBool False), (''error'', PyStr err_station)] \<and>
   str_truthy (get_station_code sample_site (ascii ''moscow'')) \<and>
   str_truthy (get_station_code sample_site (ascii ''kazan'')) \<and>
   response_status sample_response \<noteq> 200 \<and>
   check_seat_availability sample_site train1 (ascii ''moscow'') (ascii ''kazan'') june1 kupe
       lower_berth
     = [(''available'', PyBool False),
        (''error'', PyStr (err_http @ str_of_int (response_status sample_response)))] \<and>
   str_of_int (response_status sample_response) = ascii ''503''"
proof -
  have h1: "\<not> str_truthy (get_station_code sample_site (ascii ''nowhere''))" by code_simp
  have h2: "str_truthy (get_station_code sample_site (ascii ''moscow''))" by code_simp
  have h3: "str_truthy (get_station_code sample_site (ascii ''kazan''))" by code_simp
  have h4: "http_get sample_site check_url
              (check_params (the (get_station_code sample_site (ascii ''moscow'')))
                 (the (get_station_code sample_site (ascii ''kazan''))) june1 train1)
            = Inr sample_response"
    by (simp add: sample_site_def)
  have h5: "response_status sample_response \<noteq> 200" by code_simp
  have v: "str_of_int (response_status sample_response) = ascii ''503''" by code_simp
  from check_seat_availability_total
         [of sample_site train1 "ascii ''nowhere''" "ascii ''kazan''" june1 kupe lower_berth]
    check_seat_availability_total
         [of sample_site train1 "ascii ''moscow''" "ascii ''kazan''" june1 kupe lower_berth]
    h1 h2 h3 h4 h5 v
  show ?thesis by blast
qed

end
